theory Spec2Isabelle
  imports Main
begin

section \<open>Go values used by package page\<close>

text \<open>
  The embedding follows \<^verbatim>\<open>src/page/page.go\<close>. A Go function that returns
  \<^verbatim>\<open>(v, err)\<close> returns the pair here as well, with \<^verbatim>\<open>err == nil\<close> as \<open>None\<close>;
  a run-time panic is the outcome \<open>Panic\<close>. Output of \<^verbatim>\<open>log.Println\<close> and
  \<^verbatim>\<open>fmt.Println\<close> goes to the process's standard streams and is not part of the
  model, so the \<^verbatim>\<open>Debug\<close> flag, which only guards such calls, is carried but never read.
\<close>

datatype error = Error string

fun Error_text :: "error \<Rightarrow> string" where
  "Error_text (Error s) = s"

text \<open>A pointer \<^verbatim>\<open>*T\<close>: \<^verbatim>\<open>nil\<close> or the address of a value.\<close>

datatype 'a ptr = nil | Ptr 'a

text \<open>
  A Go map is a reference that may itself be \<^verbatim>\<open>nil\<close>: reading a nil map gives the
  zero value, assigning to it panics.
\<close>

datatype ('k, 'v) gomap = NilMap | GoMap "'k \<rightharpoonup> 'v"

text \<open>\<^verbatim>\<open>v, ok := m[k]\<close> for a map of pointers.\<close>

fun map_lookup :: "('k, 'v ptr) gomap \<Rightarrow> 'k \<Rightarrow> 'v ptr \<times> bool" where
  "map_lookup NilMap k = (nil, False)"
| "map_lookup (GoMap f) k = (case f k of None \<Rightarrow> (nil, False) | Some p \<Rightarrow> (p, True))"

text \<open>\<^verbatim>\<open>m[k]\<close> as an expression: the zero value when the key is absent.\<close>

definition map_index :: "('k, 'v ptr) gomap \<Rightarrow> 'k \<Rightarrow> 'v ptr" where
  "map_index m k = fst (map_lookup m k)"

text \<open>\<^verbatim>\<open>m[k] = v\<close>: \<open>None\<close> stands for the panic on a nil map.\<close>

fun map_assign :: "('k, 'v) gomap \<Rightarrow> 'k \<Rightarrow> 'v \<Rightarrow> ('k, 'v) gomap option" where
  "map_assign NilMap k v = None"
| "map_assign (GoMap f) k v = Some (GoMap (f(k \<mapsto> v)))"

datatype 'a outcome = Return 'a | Panic string

definition nil_map_panic :: string where
  "nil_map_panic = ''assignment to entry in nil map''"

definition nil_deref_panic :: string where
  "nil_deref_panic = ''runtime error: invalid memory address or nil pointer dereference''"

section \<open>Effects on shared state, in program order\<close>

text \<open>
  Each call reports the operations it performs on the package-level mutex
  \<^verbatim>\<open>mapLock\<close>, on the map \<^verbatim>\<open>TemplateMap\<close>, and the call it makes to the
  template parser, in the order the source performs them.
\<close>

datatype 'fn event =
    Lock
  | Unlock
  | MapRead string
  | MapWrite string
  | ParseFilesCall string "string \<rightharpoonup> 'fn" "string list"

fun is_parse :: "'fn event \<Rightarrow> bool" where
  "is_parse (ParseFilesCall n f fs) = True"
| "is_parse e = False"

fun is_read :: "'fn event \<Rightarrow> bool" where
  "is_read (MapRead k) = True"
| "is_read e = False"

text \<open>
  \<open>under_lock held es\<close>: every map access in \<open>es\<close> happens while the mutex is held,
  where \<open>held\<close> says whether it is held before the first event.
\<close>

fun under_lock :: "bool \<Rightarrow> 'fn event list \<Rightarrow> bool" where
  "under_lock held [] = True"
| "under_lock held (Lock # es) = under_lock True es"
| "under_lock held (Unlock # es) = under_lock False es"
| "under_lock held (MapRead k # es) = (held \<and> under_lock held es)"
| "under_lock held (MapWrite k # es) = (held \<and> under_lock held es)"
| "under_lock held (ParseFilesCall n f fs # es) = under_lock held es"

section \<open>The standard library the package calls\<close>

text \<open>
  \<^verbatim>\<open>filepath.WalkDir\<close> calls its function once per visit; a visit carries the path,
  the entry's name (\<^verbatim>\<open>d.Name()\<close>) and the error the walk met there, if any.
\<close>

record visit =
  vpath :: string
  vname :: string
  verr :: "error option"

text \<open>
  The parts of Go's library that are outside the repository are parameters:
  \<^item> \<open>ParseFiles name funcs files\<close> is
    \<^verbatim>\<open>template.New(name).Funcs(funcs).ParseFiles(files...)\<close>;
  \<^item> \<open>ExecuteTemplate tm name data\<close> and \<open>Execute tm data\<close> give the bytes the
    execution wrote to its writer and the error it returned;
  \<^item> \<open>Join\<close> is \<^verbatim>\<open>path.Join\<close> on two elements;
  \<^item> \<open>Walk n root\<close> is the sequence of visits \<^verbatim>\<open>filepath.WalkDir(root, fn)\<close> makes
    as long as \<^verbatim>\<open>fn\<close> returns \<^verbatim>\<open>nil\<close>, for the walk that \<open>n\<close> walks precede
    within one discovery pass: the directory tree may change from one walk to the next.
\<close>

record ('t, 'fn, 'd) stdlib =
  ParseFiles :: "string \<Rightarrow> (string \<rightharpoonup> 'fn) \<Rightarrow> string list \<Rightarrow> error + 't"
  ExecuteTemplate :: "'t \<Rightarrow> string \<Rightarrow> 'd \<Rightarrow> string \<times> error option"
  Execute :: "'t \<Rightarrow> 'd \<Rightarrow> string \<times> error option"
  Join :: "string \<Rightarrow> string \<Rightarrow> string"
  Walk :: "nat \<Rightarrow> string \<Rightarrow> visit list"

text \<open>
  \<^verbatim>\<open>filepath.WalkDir\<close> with a function that returns either \<^verbatim>\<open>nil\<close> or an
  ordinary error: the first error stops the walk and is returned.
\<close>

fun WalkDir :: "visit list \<Rightarrow> (visit \<Rightarrow> 'a \<Rightarrow> error option \<times> 'a) \<Rightarrow> 'a \<Rightarrow> error option \<times> 'a" where
  "WalkDir [] fn a = (None, a)"
| "WalkDir (v # vs) fn a =
     (case fn v a of
        (Some e, a') \<Rightarrow> (Some e, a')
      | (None, a') \<Rightarrow> WalkDir vs fn a')"

text \<open>
  \<^verbatim>\<open>filepath.Ext\<close> (separator \<^verbatim>\<open>/\<close>): scanning from the end and stopping at a
  separator, the suffix that starts at the first dot met; empty when there is none.
  \<open>Ext_scan\<close> runs over the reversed path, \<open>acc\<close> holding the bytes already passed.
\<close>

fun Ext_scan :: "string \<Rightarrow> string \<Rightarrow> string" where
  "Ext_scan [] acc = []"
| "Ext_scan (c # cs) acc =
     (if c = CHR ''/'' then []
      else if c = CHR ''.'' then c # acc
      else Ext_scan cs (c # acc))"

definition Ext :: "string \<Rightarrow> string" where
  "Ext path = Ext_scan (rev path) []"

text \<open>\<^verbatim>\<open>strings.HasPrefix\<close> and \<^verbatim>\<open>strings.Contains\<close>.\<close>

fun HasPrefix :: "string \<Rightarrow> string \<Rightarrow> bool" where
  "HasPrefix s [] = True"
| "HasPrefix [] (p # ps) = False"
| "HasPrefix (c # cs) (p # ps) = (c = p \<and> HasPrefix cs ps)"

fun Contains :: "string \<Rightarrow> string \<Rightarrow> bool" where
  "Contains [] substr = (substr = [])"
| "Contains (c # cs) substr = (HasPrefix (c # cs) substr \<or> Contains cs substr)"

definition StatusInternalServerError :: nat where
  "StatusInternalServerError = 500"

text \<open>
  What a call does to its \<^verbatim>\<open>http.ResponseWriter\<close>: bytes written by the template
  execution, and \<^verbatim>\<open>http.Error(w, msg, code)\<close>.
\<close>

datatype sink_op = Write string | http_Error string nat

section \<open>type Render\<close>

record ('t, 'fn) Render =
  TemplateDir :: string
  Functions :: "string \<rightharpoonup> 'fn"
  UseCache :: bool
  TemplateMap :: "(string, 't ptr) gomap"
  Partials :: "string list"
  Debug :: bool

definition New :: "('t, 'fn) Render" where
  "New = \<lparr> TemplateDir = [], Functions = Map.empty, UseCache = True,
           TemplateMap = GoMap Map.empty, Partials = [], Debug = False \<rparr>"

section \<open>Building a template set\<close>

text \<open>
  \<^verbatim>\<open>buildTemplateFromDisk\<close> (lines 138-194). The slice is built by the two
  \<^verbatim>\<open>append\<close>s, the parser is called, and an error is returned as \<^verbatim>\<open>(nil, err)\<close>.
  Otherwise the set is stored under \<open>t\<close> between \<^verbatim>\<open>Lock\<close> and \<^verbatim>\<open>Unlock\<close> (a nil
  map panics at the assignment, the lock still held), and then
  \<^verbatim>\<open>ren.TemplateMap["about.page.tmpl"]\<close> is read and \<^verbatim>\<open>DefinedTemplates\<close> called on
  it for printing: a nil pointer panics there; a non-nil pointer in the map is taken to be
  a set made by the parser, on which the call returns.
\<close>

definition buildTemplateFromDisk ::
  "('t, 'fn, 'd) stdlib \<Rightarrow> ('t, 'fn) Render \<Rightarrow> string
     \<Rightarrow> ('t ptr \<times> error option) outcome \<times> ('t, 'fn) Render \<times> 'fn event list" where
  "buildTemplateFromDisk lib ren t =
     (let templateSlice = [];
          templateSlice = templateSlice @ Partials ren;
          templateSlice = templateSlice @ [Join lib (TemplateDir ren) t];
          parsed = [ParseFilesCall t (Functions ren) templateSlice]
      in case ParseFiles lib t (Functions ren) templateSlice of
           Inl err \<Rightarrow> (Return (nil, Some err), ren, parsed)
         | Inr tmpl \<Rightarrow>
             (case map_assign (TemplateMap ren) t (Ptr tmpl) of
                None \<Rightarrow> (Panic nil_map_panic, ren, parsed @ [Lock])
              | Some m \<Rightarrow>
                  (let ren' = ren\<lparr>TemplateMap := m\<rparr>;
                       es = parsed @ [Lock, MapWrite t, Unlock, MapRead ''about.page.tmpl''];
                       tpl = map_index (TemplateMap ren') ''about.page.tmpl''
                   in case tpl of
                        nil \<Rightarrow> (Panic nil_deref_panic, ren', es)
                      | Ptr x \<Rightarrow> (Return (Ptr tmpl, None), ren', es))))"

text \<open>
  \<^verbatim>\<open>buildTemplate\<close> (lines 105-133): the lookup under \<^verbatim>\<open>UseCache\<close>, without the
  lock, then the test \<^verbatim>\<open>tmpl == nil\<close> that sends every miss to the disk build.
\<close>

definition buildTemplate ::
  "('t, 'fn, 'd) stdlib \<Rightarrow> ('t, 'fn) Render \<Rightarrow> string
     \<Rightarrow> ('t ptr \<times> error option) outcome \<times> ('t, 'fn) Render \<times> 'fn event list" where
  "buildTemplate lib ren t =
     (let (tmpl, es) =
            (if UseCache ren
             then (case map_lookup (TemplateMap ren) t of
                     (templateFromMap, True) \<Rightarrow> (templateFromMap, [MapRead t])
                   | (templateFromMap, False) \<Rightarrow> (nil, [MapRead t]))
             else (nil, []))
      in case tmpl of
           nil \<Rightarrow>
             (case buildTemplateFromDisk lib ren t of
                (Return (newTemplate, Some err), ren', es') \<Rightarrow> (Return (nil, Some err), ren', es @ es')
              | (Return (newTemplate, None), ren', es') \<Rightarrow> (Return (newTemplate, None), ren', es @ es')
              | (Panic msg, ren', es') \<Rightarrow> (Panic msg, ren', es @ es'))
         | Ptr x \<Rightarrow> (Return (Ptr x, None), ren, es))"

section \<open>Show, String, GetTemplate\<close>

text \<open>
  \<^verbatim>\<open>Show\<close> (lines 48-63), \<^verbatim>\<open>String\<close> (lines 66-83) and \<^verbatim>\<open>GetTemplate\<close>
  (lines 87-96). Each takes the \<open>Render\<close> value and returns it as the call leaves it,
  with the events of the call; \<open>Show\<close> also takes and returns the sink. A method call on
  a nil template pointer panics; \<open>buildTemplate\<close> never returns one without an error.
\<close>

definition Show ::
  "('t, 'fn, 'd) stdlib \<Rightarrow> ('t, 'fn) Render \<Rightarrow> sink_op list \<Rightarrow> string \<Rightarrow> 'd
     \<Rightarrow> error option outcome \<times> ('t, 'fn) Render \<times> 'fn event list \<times> sink_op list" where
  "Show lib ren w t td =
     (case buildTemplate lib ren t of
        (Panic msg, ren', es) \<Rightarrow> (Panic msg, ren', es, w)
      | (Return (tmpl, Some err), ren', es) \<Rightarrow> (Return (Some err), ren', es, w)
      | (Return (nil, None), ren', es) \<Rightarrow> (Panic nil_deref_panic, ren', es, w)
      | (Return (Ptr tm, None), ren', es) \<Rightarrow>
          (case ExecuteTemplate lib tm t td of
             (out, Some err) \<Rightarrow>
               (Return (Some err), ren', es,
                w @ [Write out, http_Error (Error_text err) StatusInternalServerError])
           | (out, None) \<Rightarrow> (Return None, ren', es, w @ [Write out])))"

definition String ::
  "('t, 'fn, 'd) stdlib \<Rightarrow> ('t, 'fn) Render \<Rightarrow> string \<Rightarrow> 'd
     \<Rightarrow> (string \<times> error option) outcome \<times> ('t, 'fn) Render \<times> 'fn event list" where
  "String lib ren t td =
     (case buildTemplate lib ren t of
        (Panic msg, ren', es) \<Rightarrow> (Panic msg, ren', es)
      | (Return (tmpl, Some err), ren', es) \<Rightarrow> (Return ([], Some err), ren', es)
      | (Return (nil, None), ren', es) \<Rightarrow> (Panic nil_deref_panic, ren', es)
      | (Return (Ptr tm, None), ren', es) \<Rightarrow>
          (let tpl = [] in
           case Execute lib tm td of
             (out, Some err) \<Rightarrow> (Return ([], Some err), ren', es)
           | (out, None) \<Rightarrow> (let result = tpl @ out in (Return (result, None), ren', es))))"

definition GetTemplate ::
  "('t, 'fn, 'd) stdlib \<Rightarrow> ('t, 'fn) Render \<Rightarrow> string
     \<Rightarrow> ('t ptr \<times> error option) outcome \<times> ('t, 'fn) Render \<times> 'fn event list" where
  "GetTemplate lib ren t =
     (case buildTemplate lib ren t of
        (Panic msg, ren', es) \<Rightarrow> (Panic msg, ren', es)
      | (Return (tmpl, Some err), ren', es) \<Rightarrow> (Return (nil, Some err), ren', es)
      | (Return (tmpl, None), ren', es) \<Rightarrow> (Return (tmpl, None), ren', es))"

section \<open>Discovery of layouts and partials\<close>

text \<open>
  \<^verbatim>\<open>find\<close> (lines 238-253, here \<open>find_files\<close>), \<^verbatim>\<open>addTemplate\<close> (lines 224-236)
  and \<^verbatim>\<open>LoadLayoutsAndPartials\<close> (lines 207-222). \<open>find_fn\<close> is the function literal
  that \<^verbatim>\<open>find\<close> passes to \<^verbatim>\<open>filepath.WalkDir\<close>; \<open>files\<close> is the variable it appends to.
\<close>

definition find_fn :: "string \<Rightarrow> visit \<Rightarrow> string list \<Rightarrow> error option \<times> string list" where
  "find_fn ext v files =
     (case verr v of
        Some e \<Rightarrow> (Some e, files)
      | None \<Rightarrow>
          (if Ext (vname v) = ext then (None, files @ [vpath v]) else (None, files)))"

definition find_files ::
  "('t, 'fn, 'd) stdlib \<Rightarrow> nat \<Rightarrow> string \<Rightarrow> string \<Rightarrow> string list \<times> error option" where
  "find_files lib n root ext =
     (case WalkDir (Walk lib n root) (find_fn ext) [] of
        (Some err, files) \<Rightarrow> ([], Some err)
      | (None, files) \<Rightarrow> (files, None))"

fun addTemplate_loop :: "string list \<Rightarrow> string \<Rightarrow> string list \<Rightarrow> string list" where
  "addTemplate_loop [] fileType templates = templates"
| "addTemplate_loop (x # files) fileType templates =
     (if Contains x fileType
      then addTemplate_loop files fileType (templates @ [x])
      else addTemplate_loop files fileType templates)"

definition addTemplate ::
  "('t, 'fn, 'd) stdlib \<Rightarrow> nat \<Rightarrow> string \<Rightarrow> string \<Rightarrow> string list \<times> error option" where
  "addTemplate lib n path fileType =
     (case find_files lib n path ''.tmpl'' of
        (files, Some err) \<Rightarrow> ([], Some err)
      | (files, None) \<Rightarrow> (addTemplate_loop files fileType [], None))"

text \<open>
  The loop of \<^verbatim>\<open>LoadLayoutsAndPartials\<close>; \<open>n\<close> counts the walks made so far, so that
  each \<^verbatim>\<open>addTemplate\<close> sees the tree as it is at its own walk.
\<close>

fun LoadLayoutsAndPartials_loop ::
  "('t, 'fn, 'd) stdlib \<Rightarrow> ('t, 'fn) Render \<Rightarrow> nat \<Rightarrow> string list \<Rightarrow> string list
     \<Rightarrow> error option \<times> ('t, 'fn) Render" where
  "LoadLayoutsAndPartials_loop lib ren n [] templates = (None, ren\<lparr>Partials := templates\<rparr>)"
| "LoadLayoutsAndPartials_loop lib ren n (t # fileTypes) templates =
     (case addTemplate lib n (TemplateDir ren) t of
        (files, Some err) \<Rightarrow> (Some err, ren)
      | (files, None) \<Rightarrow>
          LoadLayoutsAndPartials_loop lib ren (Suc n) fileTypes (templates @ files))"

definition LoadLayoutsAndPartials ::
  "('t, 'fn, 'd) stdlib \<Rightarrow> ('t, 'fn) Render \<Rightarrow> string list \<Rightarrow> error option \<times> ('t, 'fn) Render" where
  "LoadLayoutsAndPartials lib ren fileTypes = LoadLayoutsAndPartials_loop lib ren 0 fileTypes []"

section \<open>Projections of a call's result\<close>

definition outcome_of :: "'r \<times> 's \<times> 'e \<Rightarrow> 'r" where
  "outcome_of r = fst r"

definition render_of :: "'r \<times> 's \<times> 'e \<Rightarrow> 's" where
  "render_of r = fst (snd r)"

definition events_of :: "'r \<times> 's \<times> 'e list \<Rightarrow> 'e list" where
  "events_of r = snd (snd r)"

section \<open>A small environment to run the functions in\<close>

text \<open>
  A template set is represented by its name and the files it was parsed from. The
  directory \<^verbatim>\<open>templates\<close> holds a partial, a layout, a page and a text file; parsing
  fails when a listed file is \<^verbatim>\<open>templates/missing.page.tmpl\<close>, and executing the set
  named \<^verbatim>\<open>broken.page.tmpl\<close> fails after some output.
\<close>

definition example_walk :: "string \<Rightarrow> visit list" where
  "example_walk root =
     (if root = ''templates''
      then [\<lparr>vpath = ''templates'', vname = ''templates'', verr = None\<rparr>,
            \<lparr>vpath = ''templates/a.partial.tmpl'', vname = ''a.partial.tmpl'', verr = None\<rparr>,
            \<lparr>vpath = ''templates/b.layout.tmpl'', vname = ''b.layout.tmpl'', verr = None\<rparr>,
            \<lparr>vpath = ''templates/c.page.tmpl'', vname = ''c.page.tmpl'', verr = None\<rparr>,
            \<lparr>vpath = ''templates/notes.layout.txt'', vname = ''notes.layout.txt'', verr = None\<rparr>]
      else [\<lparr>vpath = root, vname = [], verr = Some (Error ''lstat: no such file or directory'')\<rparr>])"

definition example_lib :: "(string \<times> string list, unit, string) stdlib" where
  "example_lib =
     \<lparr> ParseFiles = (\<lambda>name funcs files.
         if ''templates/missing.page.tmpl'' \<in> set files
         then Inl (Error ''open templates/missing.page.tmpl: no such file or directory'')
         else Inr (name, files)),
       ExecuteTemplate = (\<lambda>tm name td.
         if name = ''broken.page.tmpl''
         then (''<html>'', Some (Error ''template: broken.page.tmpl: executing failed''))
         else (''<html>'' @ td @ ''</html>'', None)),
       Execute = (\<lambda>tm td.
         if fst tm = ''broken.page.tmpl''
         then (''Hel'', Some (Error ''template: broken.page.tmpl: executing failed''))
         else (''Hello '' @ td, None)),
       Join = (\<lambda>dir name. dir @ ''/'' @ name),
       Walk = (\<lambda>n. example_walk) \<rparr>"

definition example_ren :: "(string \<times> string list, unit) Render" where
  "example_ren = New\<lparr>TemplateDir := ''templates'', Partials := [''templates/b.layout.tmpl'']\<rparr>"

text \<open>The set that \<open>example_lib\<close> parses for a page of \<open>example_ren\<close>.\<close>

definition example_set :: "string \<Rightarrow> string \<times> string list" where
  "example_set t = (t, [''templates/b.layout.tmpl'', ''templates/'' @ t])"

text \<open>The same environment, where every walk after the first fails at the root.\<close>

definition flaky_lib :: "(string \<times> string list, unit, string) stdlib" where
  "flaky_lib = example_lib\<lparr>Walk := (\<lambda>n. if n = 0 then example_walk else (\<lambda>root.
     [\<lparr>vpath = root, vname = [], verr = Some (Error ''lstat: permission denied'')\<rparr>]))\<rparr>"

text \<open>The example configuration after \<^verbatim>\<open>about.page.tmpl\<close> has been built once.\<close>

definition cached_ren :: "(string \<times> string list, unit) Render" where
  "cached_ren =
     example_ren\<lparr>TemplateMap := GoMap [''about.page.tmpl'' \<mapsto> Ptr (example_set ''about.page.tmpl'')]\<rparr>"

section \<open>Strings and the directory walk\<close>

lemma HasPrefix_iff: "HasPrefix s p \<longleftrightarrow> (\<exists>w. s = p @ w)"
  by (induction s p rule: HasPrefix.induct) auto

lemma Contains_iff: "Contains s sub \<longleftrightarrow> (\<exists>u w. s = u @ sub @ w)"
proof (induction s)
  case Nil
  then show ?case by auto
next
  case (Cons c cs)
  show ?case
  proof
    assume "Contains (c # cs) sub"
    then consider "HasPrefix (c # cs) sub" | "Contains cs sub" by auto
    then show "\<exists>u w. c # cs = u @ sub @ w"
    proof cases
      case 1
      then obtain w where "c # cs = sub @ w" using HasPrefix_iff by blast
      then have "c # cs = [] @ sub @ w" by simp
      then show ?thesis by blast
    next
      case 2
      then obtain u w where "cs = u @ sub @ w" using Cons.IH by blast
      then have "c # cs = (c # u) @ sub @ w" by simp
      then show ?thesis by blast
    qed
  next
    assume "\<exists>u w. c # cs = u @ sub @ w"
    then obtain u w where eq: "c # cs = u @ sub @ w" by blast
    show "Contains (c # cs) sub"
    proof (cases u)
      case Nil
      then have "HasPrefix (c # cs) sub" using eq HasPrefix_iff by auto
      then show ?thesis by simp
    next
      case (Cons a u')
      then have "cs = u' @ sub @ w" using eq by simp
      then have "Contains cs sub" using Cons.IH by blast
      then show ?thesis by simp
    qed
  qed
qed

lemma addTemplate_loop_filter:
  "addTemplate_loop files ft acc = acc @ filter (\<lambda>x. Contains x ft) files"
  by (induction files arbitrary: acc) auto

lemma WalkDir_find_fn_ok:
  "\<forall>v\<in>set vs. verr v = None \<Longrightarrow>
   WalkDir vs (find_fn ext) acc = (None, acc @ map vpath (filter (\<lambda>v. Ext (vname v) = ext) vs))"
  by (induction vs arbitrary: acc) (auto simp: find_fn_def)

lemma WalkDir_find_fn_None:
  "WalkDir vs (find_fn ext) acc = (None, files) \<Longrightarrow> \<forall>v\<in>set vs. verr v = None"
  by (induction vs arbitrary: acc) (auto simp: find_fn_def split: option.splits if_splits)

lemma WalkDir_find_fn_Some:
  "WalkDir vs (find_fn ext) acc = (Some e, files) \<Longrightarrow> \<exists>v\<in>set vs. verr v = Some e"
  by (induction vs arbitrary: acc) (auto simp: find_fn_def split: option.splits if_splits)

lemma Ext_scan_dot:
  "Ext_scan r acc = x # xs \<Longrightarrow>
     \<exists>pre rest. r = pre @ CHR ''.'' # rest \<and> x # xs = CHR ''.'' # rev pre @ acc"
proof (induction r arbitrary: acc)
  case Nil
  then show ?case by simp
next
  case (Cons c cs)
  show ?case
  proof (cases "c = CHR ''.''")
    case True
    then have "c # cs = [] @ CHR ''.'' # cs \<and> x # xs = CHR ''.'' # rev [] @ acc"
      using Cons.prems by simp
    then show ?thesis by blast
  next
    case False
    then have "Ext_scan cs (c # acc) = x # xs"
      using Cons.prems by (simp split: if_splits)
    then obtain pre rest where "cs = pre @ CHR ''.'' # rest" "x # xs = CHR ''.'' # rev pre @ c # acc"
      using Cons.IH by blast
    then have "c # cs = (c # pre) @ CHR ''.'' # rest \<and> x # xs = CHR ''.'' # rev (c # pre) @ acc"
      by simp
    then show ?thesis by blast
  qed
qed

lemma Ext_tmpl_iff: "Ext name = ''.tmpl'' \<longleftrightarrow> (\<exists>stem. name = stem @ ''.tmpl'')"
proof
  assume "Ext name = ''.tmpl''"
  then obtain pre rest where r: "rev name = pre @ CHR ''.'' # rest" and e: "''.tmpl'' = CHR ''.'' # rev pre @ []"
    unfolding Ext_def using Ext_scan_dot by blast
  from e have "rev pre = ''tmpl''" by simp
  then have "pre = rev ''tmpl''" by (metis rev_rev_ident)
  then have "rev name = rev ''tmpl'' @ CHR ''.'' # rest" using r by simp
  then have "rev (rev name) = rev (rev ''tmpl'' @ CHR ''.'' # rest)" by simp
  then have "name = rev rest @ ''.tmpl''" by simp
  then show "\<exists>stem. name = stem @ ''.tmpl''" by blast
next
  assume "\<exists>stem. name = stem @ ''.tmpl''"
  then obtain stem where "name = stem @ ''.tmpl''" by blast
  then show "Ext name = ''.tmpl''" by (simp add: Ext_def)
qed

section \<open>Facts about the build\<close>

lemmas proj_defs = outcome_of_def render_of_def events_of_def

lemma map_lookup_absent:
  "\<not> snd (map_lookup m k) \<Longrightarrow> m = NilMap \<or> (\<exists>f. m = GoMap f \<and> f k = None)"
  by (cases m) (auto split: option.splits)

lemma fromDisk_parse_error:
  "ParseFiles lib t (Functions ren) (Partials ren @ [Join lib (TemplateDir ren) t]) = Inl err \<Longrightarrow>
   buildTemplateFromDisk lib ren t =
     (Return (nil, Some err), ren,
      [ParseFilesCall t (Functions ren) (Partials ren @ [Join lib (TemplateDir ren) t])])"
  by (simp add: buildTemplateFromDisk_def)

lemma fromDisk_nil_map:
  "ParseFiles lib t (Functions ren) (Partials ren @ [Join lib (TemplateDir ren) t]) = Inr tm \<Longrightarrow>
   TemplateMap ren = NilMap \<Longrightarrow>
   buildTemplateFromDisk lib ren t =
     (Panic nil_map_panic, ren,
      [ParseFilesCall t (Functions ren) (Partials ren @ [Join lib (TemplateDir ren) t]), Lock])"
  by (simp add: buildTemplateFromDisk_def)

lemma fromDisk_parsed:
  "ParseFiles lib t (Functions ren) (Partials ren @ [Join lib (TemplateDir ren) t]) = Inr tm \<Longrightarrow>
   TemplateMap ren = GoMap f \<Longrightarrow>
   buildTemplateFromDisk lib ren t =
     ((case (f(t \<mapsto> Ptr tm)) ''about.page.tmpl'' of
         Some (Ptr x) \<Rightarrow> Return (Ptr tm, None)
       | _ \<Rightarrow> Panic nil_deref_panic),
      ren\<lparr>TemplateMap := GoMap (f(t \<mapsto> Ptr tm))\<rparr>,
      [ParseFilesCall t (Functions ren) (Partials ren @ [Join lib (TemplateDir ren) t]),
       Lock, MapWrite t, Unlock, MapRead ''about.page.tmpl''])"
  by (simp add: buildTemplateFromDisk_def map_index_def Let_def split: option.splits ptr.splits)

lemma fromDisk_parse_events:
  "filter is_parse (events_of (buildTemplateFromDisk lib ren t)) =
     [ParseFilesCall t (Functions ren) (Partials ren @ [Join lib (TemplateDir ren) t])]"
  by (cases "TemplateMap ren")
     (simp_all add: buildTemplateFromDisk_def events_of_def map_index_def Let_def
        split: sum.splits option.splits ptr.splits)

lemma fromDisk_error_iff:
  "buildTemplateFromDisk lib ren t = (Return (p, Some err), ren', es) \<Longrightarrow>
   ren' = ren \<and> p = nil \<and>
   ParseFiles lib t (Functions ren) (Partials ren @ [Join lib (TemplateDir ren) t]) = Inl err"
  by (cases "TemplateMap ren")
     (auto simp add: buildTemplateFromDisk_def map_index_def Let_def
        split: sum.splits option.splits ptr.splits)

lemma fromDisk_success:
  "buildTemplateFromDisk lib ren t = (Return (p, None), ren', es) \<Longrightarrow>
   \<exists>tm f. p = Ptr tm \<and>
     ParseFiles lib t (Functions ren) (Partials ren @ [Join lib (TemplateDir ren) t]) = Inr tm \<and>
     TemplateMap ren = GoMap f \<and> ren' = ren\<lparr>TemplateMap := GoMap (f(t \<mapsto> Ptr tm))\<rparr>"
  by (cases "TemplateMap ren")
     (auto simp add: buildTemplateFromDisk_def map_index_def Let_def
        split: sum.splits option.splits ptr.splits)

lemma buildTemplate_hit:
  "UseCache ren \<Longrightarrow> map_lookup (TemplateMap ren) t = (Ptr tm, True) \<Longrightarrow>
   buildTemplate lib ren t = (Return (Ptr tm, None), ren, [MapRead t])"
  by (simp add: buildTemplate_def)

lemma buildTemplate_through:
  "buildTemplateFromDisk lib ren t = (r, ren', es') \<Longrightarrow>
   (case buildTemplateFromDisk lib ren t of
      (Return (newTemplate, Some err), ren', es') \<Rightarrow> (Return (nil, Some err), ren', es @ es')
    | (Return (newTemplate, None), ren', es') \<Rightarrow> (Return (newTemplate, None), ren', es @ es')
    | (Panic msg, ren', es') \<Rightarrow> (Panic msg, ren', es @ es')) = (r, ren', es @ es')"
  by (auto split: outcome.splits option.splits dest: fromDisk_error_iff)

lemma buildTemplate_nocache:
  "\<not> UseCache ren \<Longrightarrow> buildTemplate lib ren t = buildTemplateFromDisk lib ren t"
proof -
  assume a: "\<not> UseCache ren"
  obtain r ren' es' where d: "buildTemplateFromDisk lib ren t = (r, ren', es')"
    by (cases "buildTemplateFromDisk lib ren t") auto
  show ?thesis
    using a buildTemplate_through [OF d, of "[]"] d by (simp add: buildTemplate_def)
qed

lemma buildTemplate_miss:
  assumes "UseCache ren" and "\<not> (\<exists>tm. map_lookup (TemplateMap ren) t = (Ptr tm, True))"
  shows "buildTemplate lib ren t =
     (outcome_of (buildTemplateFromDisk lib ren t), render_of (buildTemplateFromDisk lib ren t),
      MapRead t # events_of (buildTemplateFromDisk lib ren t))"
proof -
  obtain r ren' es' where d: "buildTemplateFromDisk lib ren t = (r, ren', es')"
    by (cases "buildTemplateFromDisk lib ren t") auto
  obtain p ok where l: "map_lookup (TemplateMap ren) t = (p, ok)"
    by (cases "map_lookup (TemplateMap ren) t") auto
  have "(if ok then p else nil) = nil"
    using assms(2) l by (cases p) auto
  then show ?thesis
    using assms(1) l buildTemplate_through [OF d, of "[MapRead t]"] d
    by (cases ok) (simp_all add: buildTemplate_def proj_defs)
qed

lemma buildTemplate_error_nil:
  "buildTemplate lib ren t = (Return (p, Some err), ren', es) \<Longrightarrow> p = nil \<and> ren' = ren"
proof -
  assume a: "buildTemplate lib ren t = (Return (p, Some err), ren', es)"
  show ?thesis
  proof (cases "UseCache ren")
    case False
    then show ?thesis using a buildTemplate_nocache [of ren lib t] fromDisk_error_iff by metis
  next
    case True
    show ?thesis
    proof (cases "\<exists>tm. map_lookup (TemplateMap ren) t = (Ptr tm, True)")
      case True
      then obtain tm where "map_lookup (TemplateMap ren) t = (Ptr tm, True)" by blast
      from buildTemplate_hit [OF \<open>UseCache ren\<close> this, of lib] a show ?thesis by simp
    next
      case False
      obtain r ren1 es1 where d: "buildTemplateFromDisk lib ren t = (r, ren1, es1)"
        by (cases "buildTemplateFromDisk lib ren t") auto
      from buildTemplate_miss [OF \<open>UseCache ren\<close> False, of lib] a d
      have "r = Return (p, Some err)" "ren1 = ren'" by (simp_all add: proj_defs)
      then show ?thesis using d fromDisk_error_iff by metis
    qed
  qed
qed

lemma GetTemplate_eq: "GetTemplate lib ren t = buildTemplate lib ren t"
proof -
  obtain r ren' es where b: "buildTemplate lib ren t = (r, ren', es)"
    by (cases "buildTemplate lib ren t") auto
  show ?thesis
  proof (cases r)
    case (Panic m)
    then show ?thesis using b by (simp add: GetTemplate_def)
  next
    case (Return pe)
    obtain p e where pe: "pe = (p, e)" by (cases pe) auto
    show ?thesis
    proof (cases e)
      case None
      then show ?thesis using b Return pe by (simp add: GetTemplate_def)
    next
      case (Some err)
      then have "p = nil" using b Return pe buildTemplate_error_nil by metis
      then show ?thesis using b Return pe Some by (simp add: GetTemplate_def)
    qed
  qed
qed

section \<open>The example environment, evaluated\<close>

lemma example_parse:
  "t \<noteq> ''missing.page.tmpl'' \<Longrightarrow>
   ParseFiles example_lib t (Functions example_ren)
     (Partials example_ren @ [Join example_lib (TemplateDir example_ren) t]) = Inr (example_set t)"
  by (simp add: example_lib_def example_ren_def New_def example_set_def)

lemma example_about_build:
  "buildTemplateFromDisk example_lib example_ren ''about.page.tmpl'' =
     (Return (Ptr (example_set ''about.page.tmpl''), None),
      example_ren\<lparr>TemplateMap := GoMap [''about.page.tmpl'' \<mapsto> Ptr (example_set ''about.page.tmpl'')]\<rparr>,
      [ParseFilesCall ''about.page.tmpl'' Map.empty
         [''templates/b.layout.tmpl'', ''templates/about.page.tmpl''],
       Lock, MapWrite ''about.page.tmpl'', Unlock, MapRead ''about.page.tmpl''])"
proof -
  have p: "ParseFiles example_lib ''about.page.tmpl'' (Functions example_ren)
     (Partials example_ren @ [Join example_lib (TemplateDir example_ren) ''about.page.tmpl''])
     = Inr (example_set ''about.page.tmpl'')"
    by (rule example_parse) simp
  have m: "TemplateMap example_ren = GoMap Map.empty"
    by (simp add: example_ren_def New_def)
  show ?thesis
    unfolding fromDisk_parsed [OF p m]
    by (simp add: example_ren_def New_def example_lib_def)
qed

section \<open>Claims about the disk build\<close>

text \<open>
  C4. When the disk build fails, that is when the parser returns an error for the file
  list, \<open>buildTemplateFromDisk\<close> returns \<^verbatim>\<open>(nil, err)\<close> with that error and leaves
  the whole \<open>Render\<close> value, the cache map included, as it was: a prior entry under the
  key stays and no entry is added. Conversely, an error return of
  \<open>buildTemplateFromDisk\<close> only comes from a parser error, and an error return of the
  resolution \<open>buildTemplate\<close> leaves the \<open>Render\<close> value unchanged as well.
\<close>

theorem failed_build_keeps_cache:
  "(ParseFiles lib t (Functions ren) (Partials ren @ [Join lib (TemplateDir ren) t]) = Inl err \<longrightarrow>
      buildTemplateFromDisk lib ren t =
        (Return (nil, Some err), ren,
         [ParseFilesCall t (Functions ren) (Partials ren @ [Join lib (TemplateDir ren) t])]))
   \<and> (buildTemplateFromDisk lib ren t = (Return (p, Some err), ren', es) \<longrightarrow>
        ren' = ren \<and> TemplateMap ren' = TemplateMap ren \<and> p = nil \<and>
        ParseFiles lib t (Functions ren) (Partials ren @ [Join lib (TemplateDir ren) t]) = Inl err)
   \<and> (buildTemplate lib ren t = (Return (p, Some err), ren', es) \<longrightarrow>
        ren' = ren \<and> TemplateMap ren' = TemplateMap ren \<and> p = nil)"
proof (intro conjI impI)
  assume "ParseFiles lib t (Functions ren) (Partials ren @ [Join lib (TemplateDir ren) t]) = Inl err"
  then show "buildTemplateFromDisk lib ren t =
        (Return (nil, Some err), ren,
         [ParseFilesCall t (Functions ren) (Partials ren @ [Join lib (TemplateDir ren) t])])"
    by (rule fromDisk_parse_error)
next
  assume a: "buildTemplateFromDisk lib ren t = (Return (p, Some err), ren', es)"
  from fromDisk_error_iff [OF a] show "ren' = ren" "TemplateMap ren' = TemplateMap ren" "p = nil"
    "ParseFiles lib t (Functions ren) (Partials ren @ [Join lib (TemplateDir ren) t]) = Inl err"
    by simp_all
next
  assume a: "buildTemplate lib ren t = (Return (p, Some err), ren', es)"
  from buildTemplate_error_nil [OF a] show "ren' = ren" "TemplateMap ren' = TemplateMap ren" "p = nil"
    by simp_all
qed

theorem failed_build_keeps_cache_witness:
  "ParseFiles example_lib ''missing.page.tmpl''
       (Functions (example_ren\<lparr>TemplateMap := GoMap [''missing.page.tmpl'' \<mapsto> Ptr (example_set ''old'')]\<rparr>))
       (Partials (example_ren\<lparr>TemplateMap := GoMap [''missing.page.tmpl'' \<mapsto> Ptr (example_set ''old'')]\<rparr>)
          @ [Join example_lib
               (TemplateDir (example_ren\<lparr>TemplateMap := GoMap [''missing.page.tmpl'' \<mapsto> Ptr (example_set ''old'')]\<rparr>))
               ''missing.page.tmpl''])
     = Inl (Error ''open templates/missing.page.tmpl: no such file or directory'')
   \<and> outcome_of (buildTemplateFromDisk example_lib
         (example_ren\<lparr>TemplateMap := GoMap [''missing.page.tmpl'' \<mapsto> Ptr (example_set ''old'')]\<rparr>)
         ''missing.page.tmpl'')
     = Return (nil, Some (Error ''open templates/missing.page.tmpl: no such file or directory''))
   \<and> map_lookup (TemplateMap (render_of (buildTemplateFromDisk example_lib
         (example_ren\<lparr>TemplateMap := GoMap [''missing.page.tmpl'' \<mapsto> Ptr (example_set ''old'')]\<rparr>)
         ''missing.page.tmpl''))) ''missing.page.tmpl''
     = (Ptr (example_set ''old''), True)"
proof -
  let ?ren = "example_ren\<lparr>TemplateMap := GoMap [''missing.page.tmpl'' \<mapsto> Ptr (example_set ''old'')]\<rparr>"
  let ?err = "Error ''open templates/missing.page.tmpl: no such file or directory''"
  have h: "ParseFiles example_lib ''missing.page.tmpl'' (Functions ?ren)
       (Partials ?ren @ [Join example_lib (TemplateDir ?ren) ''missing.page.tmpl'']) = Inl ?err"
    by (simp add: example_lib_def example_ren_def New_def)
  have c: "buildTemplateFromDisk example_lib ?ren ''missing.page.tmpl'' =
        (Return (nil, Some ?err), ?ren,
         [ParseFilesCall ''missing.page.tmpl'' (Functions ?ren)
            (Partials ?ren @ [Join example_lib (TemplateDir ?ren) ''missing.page.tmpl''])])"
    using failed_build_keeps_cache [of example_lib "''missing.page.tmpl''" ?ren ?err] h by blast
  show ?thesis
    unfolding c using h by (simp add: proj_defs)
qed



section \<open>The read of \<^verbatim>\<open>about.page.tmpl\<close> after a build\<close>

text \<open>
  C2, as amended. Take any \<open>Render\<close> value whose \<open>TemplateMap\<close> has no entry under
  the key \<^verbatim>\<open>about.page.tmpl\<close>, any template name \<open>t\<close>, and a call of
  \<open>buildTemplateFromDisk\<close> whose parse succeeds.
  \<^item> For \<open>t\<close> other than \<^verbatim>\<open>about.page.tmpl\<close> the call does not return normally. On
    a map that is not nil it inserts the entry for \<open>t\<close> under the lock, then reads
    \<^verbatim>\<open>TemplateMap["about.page.tmpl"]\<close>, gets \<^verbatim>\<open>nil\<close> and panics on
    \<^verbatim>\<open>DefinedTemplates\<close>, leaving the inserted entry behind.
  \<^item> On a nil map, for every \<open>t\<close>, the assignment itself panics, with the lock held and
    the \<open>Render\<close> value unchanged.
  \<^item> For \<open>t\<close> equal to \<^verbatim>\<open>about.page.tmpl\<close> on a map that is not nil, the insertion
    creates the entry that is read next, and the call returns the parsed set.
\<close>

theorem build_panics_without_about:
  "\<not> snd (map_lookup (TemplateMap ren) ''about.page.tmpl'') \<Longrightarrow>
   ParseFiles lib t (Functions ren) (Partials ren @ [Join lib (TemplateDir ren) t]) = Inr tm \<Longrightarrow>
   (t \<noteq> ''about.page.tmpl'' \<longrightarrow>
      (\<exists>msg. outcome_of (buildTemplateFromDisk lib ren t) = Panic msg)
      \<and> (TemplateMap ren = GoMap f \<longrightarrow>
           buildTemplateFromDisk lib ren t =
             (Panic nil_deref_panic, ren\<lparr>TemplateMap := GoMap (f(t \<mapsto> Ptr tm))\<rparr>,
              [ParseFilesCall t (Functions ren) (Partials ren @ [Join lib (TemplateDir ren) t]),
               Lock, MapWrite t, Unlock, MapRead ''about.page.tmpl''])))
   \<and> (TemplateMap ren = NilMap \<longrightarrow>
        buildTemplateFromDisk lib ren t =
          (Panic nil_map_panic, ren,
           [ParseFilesCall t (Functions ren) (Partials ren @ [Join lib (TemplateDir ren) t]), Lock]))
   \<and> (t = ''about.page.tmpl'' \<longrightarrow> TemplateMap ren = GoMap f \<longrightarrow>
        buildTemplateFromDisk lib ren t =
          (Return (Ptr tm, None), ren\<lparr>TemplateMap := GoMap (f(t \<mapsto> Ptr tm))\<rparr>,
           [ParseFilesCall t (Functions ren) (Partials ren @ [Join lib (TemplateDir ren) t]),
            Lock, MapWrite t, Unlock, MapRead ''about.page.tmpl'']))"
proof -
  assume absent: "\<not> snd (map_lookup (TemplateMap ren) ''about.page.tmpl'')"
    and parsed: "ParseFiles lib t (Functions ren) (Partials ren @ [Join lib (TemplateDir ren) t]) = Inr tm"
  have go: "buildTemplateFromDisk lib ren t =
          (Panic nil_deref_panic, ren\<lparr>TemplateMap := GoMap (g(t \<mapsto> Ptr tm))\<rparr>,
           [ParseFilesCall t (Functions ren) (Partials ren @ [Join lib (TemplateDir ren) t]),
            Lock, MapWrite t, Unlock, MapRead ''about.page.tmpl''])"
    if m: "TemplateMap ren = GoMap g" and t: "t \<noteq> ''about.page.tmpl''" for g
  proof -
    have "g ''about.page.tmpl'' = None"
      using absent m by (simp split: option.splits)
    then have "(g(t \<mapsto> Ptr tm)) ''about.page.tmpl'' = None"
      using t by simp
    then show ?thesis
      unfolding fromDisk_parsed [OF parsed m] by simp
  qed
  have nilmap: "buildTemplateFromDisk lib ren t =
          (Panic nil_map_panic, ren,
           [ParseFilesCall t (Functions ren) (Partials ren @ [Join lib (TemplateDir ren) t]), Lock])"
    if "TemplateMap ren = NilMap"
    using fromDisk_nil_map [OF parsed that] .
  have panics: "\<exists>msg. outcome_of (buildTemplateFromDisk lib ren t) = Panic msg"
    if t: "t \<noteq> ''about.page.tmpl''"
  proof (cases "TemplateMap ren")
    case NilMap
    then show ?thesis
      unfolding nilmap [OF NilMap] by (simp add: outcome_of_def)
  next
    case (GoMap g)
    then show ?thesis
      unfolding go [OF GoMap t] by (simp add: outcome_of_def)
  qed
  have about: "buildTemplateFromDisk lib ren t =
          (Return (Ptr tm, None), ren\<lparr>TemplateMap := GoMap (f(t \<mapsto> Ptr tm))\<rparr>,
           [ParseFilesCall t (Functions ren) (Partials ren @ [Join lib (TemplateDir ren) t]),
            Lock, MapWrite t, Unlock, MapRead ''about.page.tmpl''])"
    if t: "t = ''about.page.tmpl''" and m: "TemplateMap ren = GoMap f"
  proof -
    have "(f(t \<mapsto> Ptr tm)) ''about.page.tmpl'' = Some (Ptr tm)"
      using t by simp
    then show ?thesis
      unfolding fromDisk_parsed [OF parsed m] by simp
  qed
  show ?thesis using go nilmap panics about by blast
qed

theorem build_panics_without_about_witness:
  "map_lookup (TemplateMap example_ren) ''about.page.tmpl'' = (nil, False)
   \<and> TemplateMap example_ren = GoMap Map.empty
   \<and> ParseFiles example_lib ''home.page.tmpl'' (Functions example_ren)
        (Partials example_ren @ [Join example_lib (TemplateDir example_ren) ''home.page.tmpl''])
       = Inr (example_set ''home.page.tmpl'')
   \<and> ''home.page.tmpl'' \<noteq> ''about.page.tmpl''
   \<and> buildTemplateFromDisk example_lib example_ren ''home.page.tmpl'' =
          (Panic nil_deref_panic,
           example_ren\<lparr>TemplateMap := GoMap [''home.page.tmpl'' \<mapsto> Ptr (example_set ''home.page.tmpl'')]\<rparr>,
           [ParseFilesCall ''home.page.tmpl'' (Functions example_ren)
              (Partials example_ren @ [Join example_lib (TemplateDir example_ren) ''home.page.tmpl'']),
            Lock, MapWrite ''home.page.tmpl'', Unlock, MapRead ''about.page.tmpl''])
   \<and> ParseFiles example_lib ''about.page.tmpl'' (Functions example_ren)
        (Partials example_ren @ [Join example_lib (TemplateDir example_ren) ''about.page.tmpl''])
       = Inr (example_set ''about.page.tmpl'')
   \<and> buildTemplateFromDisk example_lib example_ren ''about.page.tmpl'' =
          (Return (Ptr (example_set ''about.page.tmpl''), None),
           example_ren\<lparr>TemplateMap := GoMap [''about.page.tmpl'' \<mapsto> Ptr (example_set ''about.page.tmpl'')]\<rparr>,
           [ParseFilesCall ''about.page.tmpl'' (Functions example_ren)
              (Partials example_ren @ [Join example_lib (TemplateDir example_ren) ''about.page.tmpl'']),
            Lock, MapWrite ''about.page.tmpl'', Unlock, MapRead ''about.page.tmpl''])
   \<and> map_lookup (TemplateMap (example_ren\<lparr>TemplateMap := NilMap\<rparr>)) ''about.page.tmpl'' = (nil, False)
   \<and> TemplateMap (example_ren\<lparr>TemplateMap := NilMap\<rparr>) = NilMap
   \<and> ParseFiles example_lib ''about.page.tmpl'' (Functions (example_ren\<lparr>TemplateMap := NilMap\<rparr>))
        (Partials (example_ren\<lparr>TemplateMap := NilMap\<rparr>)
           @ [Join example_lib (TemplateDir (example_ren\<lparr>TemplateMap := NilMap\<rparr>)) ''about.page.tmpl''])
       = Inr (example_set ''about.page.tmpl'')
   \<and> buildTemplateFromDisk example_lib (example_ren\<lparr>TemplateMap := NilMap\<rparr>) ''about.page.tmpl'' =
          (Panic nil_map_panic, example_ren\<lparr>TemplateMap := NilMap\<rparr>,
           [ParseFilesCall ''about.page.tmpl'' (Functions (example_ren\<lparr>TemplateMap := NilMap\<rparr>))
              (Partials (example_ren\<lparr>TemplateMap := NilMap\<rparr>)
                 @ [Join example_lib (TemplateDir (example_ren\<lparr>TemplateMap := NilMap\<rparr>))
                      ''about.page.tmpl'']),
            Lock])"
proof -
  let ?nil = "example_ren\<lparr>TemplateMap := NilMap\<rparr>"
  have h1: "''home.page.tmpl'' \<noteq> ''about.page.tmpl''" by simp
  have m: "TemplateMap example_ren = GoMap Map.empty"
    by (simp add: example_ren_def New_def)
  have l: "map_lookup (TemplateMap example_ren) ''about.page.tmpl'' = (nil, False)"
    by (simp add: m)
  then have h2: "\<not> snd (map_lookup (TemplateMap example_ren) ''about.page.tmpl'')" by simp
  have h3: "ParseFiles example_lib ''home.page.tmpl'' (Functions example_ren)
        (Partials example_ren @ [Join example_lib (TemplateDir example_ren) ''home.page.tmpl''])
       = Inr (example_set ''home.page.tmpl'')"
    by (rule example_parse) simp
  have h4: "ParseFiles example_lib ''about.page.tmpl'' (Functions example_ren)
        (Partials example_ren @ [Join example_lib (TemplateDir example_ren) ''about.page.tmpl''])
       = Inr (example_set ''about.page.tmpl'')"
    by (rule example_parse) simp
  have c1: "buildTemplateFromDisk example_lib example_ren ''home.page.tmpl'' =
          (Panic nil_deref_panic,
           example_ren\<lparr>TemplateMap := GoMap [''home.page.tmpl'' \<mapsto> Ptr (example_set ''home.page.tmpl'')]\<rparr>,
           [ParseFilesCall ''home.page.tmpl'' (Functions example_ren)
              (Partials example_ren @ [Join example_lib (TemplateDir example_ren) ''home.page.tmpl'']),
            Lock, MapWrite ''home.page.tmpl'', Unlock, MapRead ''about.page.tmpl''])"
    using build_panics_without_about [OF h2 h3, of Map.empty] h1 m by blast
  have c2: "buildTemplateFromDisk example_lib example_ren ''about.page.tmpl'' =
          (Return (Ptr (example_set ''about.page.tmpl''), None),
           example_ren\<lparr>TemplateMap := GoMap [''about.page.tmpl'' \<mapsto> Ptr (example_set ''about.page.tmpl'')]\<rparr>,
           [ParseFilesCall ''about.page.tmpl'' (Functions example_ren)
              (Partials example_ren @ [Join example_lib (TemplateDir example_ren) ''about.page.tmpl'']),
            Lock, MapWrite ''about.page.tmpl'', Unlock, MapRead ''about.page.tmpl''])"
    using build_panics_without_about [OF h2 h4, of Map.empty] m by blast
  have n: "TemplateMap ?nil = NilMap" by simp
  have nl: "map_lookup (TemplateMap ?nil) ''about.page.tmpl'' = (nil, False)" by simp
  then have h5: "\<not> snd (map_lookup (TemplateMap ?nil) ''about.page.tmpl'')" by simp
  have h6: "ParseFiles example_lib ''about.page.tmpl'' (Functions ?nil)
        (Partials ?nil @ [Join example_lib (TemplateDir ?nil) ''about.page.tmpl''])
       = Inr (example_set ''about.page.tmpl'')"
    using h4 by simp
  have c3: "buildTemplateFromDisk example_lib ?nil ''about.page.tmpl'' =
          (Panic nil_map_panic, ?nil,
           [ParseFilesCall ''about.page.tmpl'' (Functions ?nil)
              (Partials ?nil @ [Join example_lib (TemplateDir ?nil) ''about.page.tmpl'']), Lock])"
    using build_panics_without_about [OF h5 h6] n by blast
  show ?thesis using l m h3 h1 c1 h4 c2 nl n h6 c3 by blast
qed

text \<open>
  C2 as stated quantifies over every template name. For \<open>t\<close> equal to
  \<^verbatim>\<open>about.page.tmpl\<close> on the empty map the insertion creates the very entry that is
  read next, so the call returns the set although the map had no such entry before the
  call.
\<close>

theorem about_build_returns_counterexample:
  "map_lookup (TemplateMap example_ren) ''about.page.tmpl'' = (nil, False)
   \<and> ParseFiles example_lib ''about.page.tmpl'' (Functions example_ren)
        (Partials example_ren @ [Join example_lib (TemplateDir example_ren) ''about.page.tmpl''])
       = Inr (example_set ''about.page.tmpl'')
   \<and> outcome_of (buildTemplateFromDisk example_lib example_ren ''about.page.tmpl'')
       = Return (Ptr (example_set ''about.page.tmpl''), None)"
proof -
  have "map_lookup (TemplateMap example_ren) ''about.page.tmpl'' = (nil, False)"
    by (simp add: example_ren_def New_def)
  moreover have "ParseFiles example_lib ''about.page.tmpl'' (Functions example_ren)
        (Partials example_ren @ [Join example_lib (TemplateDir example_ren) ''about.page.tmpl''])
       = Inr (example_set ''about.page.tmpl'')"
    by (rule example_parse) simp
  moreover have "outcome_of (buildTemplateFromDisk example_lib example_ren ''about.page.tmpl'')
       = Return (Ptr (example_set ''about.page.tmpl''), None)"
    unfolding example_about_build by (simp add: outcome_of_def)
  ultimately show ?thesis by blast
qed

section \<open>Resolution: cache or disk\<close>

lemma example_fromDisk:
  assumes "t \<noteq> ''missing.page.tmpl''"
  shows "buildTemplateFromDisk example_lib (example_ren\<lparr>UseCache := u, TemplateMap := GoMap f\<rparr>) t =
     ((case (f(t \<mapsto> Ptr (example_set t))) ''about.page.tmpl'' of
         Some (Ptr x) \<Rightarrow> Return (Ptr (example_set t), None)
       | _ \<Rightarrow> Panic nil_deref_panic),
      example_ren\<lparr>UseCache := u, TemplateMap := GoMap (f(t \<mapsto> Ptr (example_set t)))\<rparr>,
      [ParseFilesCall t Map.empty [''templates/b.layout.tmpl'', ''templates/'' @ t],
       Lock, MapWrite t, Unlock, MapRead ''about.page.tmpl''])"
proof -
  let ?ren = "example_ren\<lparr>UseCache := u, TemplateMap := GoMap f\<rparr>"
  have p: "ParseFiles example_lib t (Functions ?ren)
     (Partials ?ren @ [Join example_lib (TemplateDir ?ren) t]) = Inr (example_set t)"
    using example_parse [OF assms] by simp
  have m: "TemplateMap ?ren = GoMap f" by simp
  show ?thesis
    unfolding fromDisk_parsed [OF p m]
    by (simp add: example_ren_def New_def example_lib_def)
qed

lemma resolution_in_Show:
  "render_of (Show lib ren w t td) = render_of (buildTemplate lib ren t)
   \<and> fst (snd (snd (Show lib ren w t td))) = events_of (buildTemplate lib ren t)"
  by (cases "buildTemplate lib ren t")
     (auto simp add: Show_def proj_defs split: outcome.splits option.splits ptr.splits prod.splits)

lemma resolution_in_String:
  "render_of (String lib ren t td) = render_of (buildTemplate lib ren t)
   \<and> events_of (String lib ren t td) = events_of (buildTemplate lib ren t)"
  by (cases "buildTemplate lib ren t")
     (auto simp add: String_def proj_defs split: outcome.splits option.splits ptr.splits prod.splits)

lemma no_parse_iff_hit:
  "(filter is_parse (events_of (buildTemplate lib ren t)) = []) =
     (UseCache ren \<and> (\<exists>tm. map_lookup (TemplateMap ren) t = (Ptr tm, True)))"
proof (cases "UseCache ren")
  case False
  then show ?thesis
    using buildTemplate_nocache [OF False, of lib t] fromDisk_parse_events [of lib ren t] by simp
next
  case True
  show ?thesis
  proof (cases "\<exists>tm. map_lookup (TemplateMap ren) t = (Ptr tm, True)")
    case hit: True
    then obtain tm where "map_lookup (TemplateMap ren) t = (Ptr tm, True)" by blast
    from buildTemplate_hit [OF True this, of lib] True hit show ?thesis
      by (simp add: events_of_def)
  next
    case miss: False
    have "events_of (buildTemplate lib ren t) = MapRead t # events_of (buildTemplateFromDisk lib ren t)"
      unfolding buildTemplate_miss [OF True miss] by (simp add: events_of_def)
    then show ?thesis
      using miss fromDisk_parse_events [of lib ren t] by simp
  qed
qed

text \<open>
  C3, as amended. Resolving a template name \<open>t\<close> (\<open>buildTemplate\<close>, which \<open>Show\<close>,
  \<open>String\<close> and \<open>GetTemplate\<close> all call first) returns the cached entry, without a
  parser call and without changing the \<open>Render\<close> value, if and only if \<open>UseCache\<close> is
  true and the map holds a non-nil entry for \<open>t\<close>. In every other case the result is
  that of the disk build: with \<open>UseCache\<close> true the lookup of \<open>t\<close> comes first, with
  \<open>UseCache\<close> false the resolution is the disk build itself, whatever the map holds.
  \<open>GetTemplate\<close> returns what the resolution returns, and \<open>Show\<close> and \<open>String\<close> leave
  the \<open>Render\<close> value and perform the operations that the resolution does.
\<close>

theorem resolution_cache_or_disk:
  "(filter is_parse (events_of (buildTemplate lib ren t)) = []) =
     (UseCache ren \<and> (\<exists>x. map_lookup (TemplateMap ren) t = (Ptr x, True)))
   \<and> (UseCache ren \<longrightarrow> map_lookup (TemplateMap ren) t = (Ptr tm, True) \<longrightarrow>
        buildTemplate lib ren t = (Return (Ptr tm, None), ren, [MapRead t]))
   \<and> (UseCache ren \<longrightarrow> \<not> (\<exists>x. map_lookup (TemplateMap ren) t = (Ptr x, True)) \<longrightarrow>
        buildTemplate lib ren t =
          (outcome_of (buildTemplateFromDisk lib ren t), render_of (buildTemplateFromDisk lib ren t),
           MapRead t # events_of (buildTemplateFromDisk lib ren t)))
   \<and> (\<not> UseCache ren \<longrightarrow> buildTemplate lib ren t = buildTemplateFromDisk lib ren t)
   \<and> GetTemplate lib ren t = buildTemplate lib ren t
   \<and> render_of (Show lib ren w t td) = render_of (buildTemplate lib ren t)
   \<and> fst (snd (snd (Show lib ren w t td))) = events_of (buildTemplate lib ren t)
   \<and> render_of (String lib ren t td) = render_of (buildTemplate lib ren t)
   \<and> events_of (String lib ren t td) = events_of (buildTemplate lib ren t)"
  using no_parse_iff_hit [of lib ren t] buildTemplate_hit [of ren t tm lib]
    buildTemplate_miss [of ren t lib] buildTemplate_nocache [of ren lib t]
    GetTemplate_eq [of lib ren t] resolution_in_Show [of lib ren w t td]
    resolution_in_String [of lib ren t td]
  by blast

theorem resolution_cache_or_disk_witness:
  "UseCache (example_ren\<lparr>UseCache := True,
        TemplateMap := GoMap [''about.page.tmpl'' \<mapsto> Ptr (example_set ''cached'')]\<rparr>)
   \<and> map_lookup (TemplateMap (example_ren\<lparr>UseCache := True,
        TemplateMap := GoMap [''about.page.tmpl'' \<mapsto> Ptr (example_set ''cached'')]\<rparr>)) ''about.page.tmpl''
       = (Ptr (example_set ''cached''), True)
   \<and> buildTemplate example_lib (example_ren\<lparr>UseCache := True,
        TemplateMap := GoMap [''about.page.tmpl'' \<mapsto> Ptr (example_set ''cached'')]\<rparr>) ''about.page.tmpl''
       = (Return (Ptr (example_set ''cached''), None),
          example_ren\<lparr>UseCache := True,
            TemplateMap := GoMap [''about.page.tmpl'' \<mapsto> Ptr (example_set ''cached'')]\<rparr>,
          [MapRead ''about.page.tmpl''])
   \<and> \<not> UseCache (example_ren\<lparr>UseCache := False,
        TemplateMap := GoMap [''about.page.tmpl'' \<mapsto> Ptr (example_set ''cached'')]\<rparr>)
   \<and> buildTemplate example_lib (example_ren\<lparr>UseCache := False,
        TemplateMap := GoMap [''about.page.tmpl'' \<mapsto> Ptr (example_set ''cached'')]\<rparr>) ''about.page.tmpl''
       = (Return (Ptr (example_set ''about.page.tmpl''), None),
          example_ren\<lparr>UseCache := False,
            TemplateMap := GoMap [''about.page.tmpl'' \<mapsto> Ptr (example_set ''about.page.tmpl'')]\<rparr>,
          [ParseFilesCall ''about.page.tmpl'' Map.empty
             [''templates/b.layout.tmpl'', ''templates/about.page.tmpl''],
           Lock, MapWrite ''about.page.tmpl'', Unlock, MapRead ''about.page.tmpl''])
   \<and> \<not> (\<exists>x. map_lookup (TemplateMap (example_ren\<lparr>UseCache := True, TemplateMap := GoMap Map.empty\<rparr>))
            ''about.page.tmpl'' = (Ptr x, True))
   \<and> buildTemplate example_lib (example_ren\<lparr>UseCache := True, TemplateMap := GoMap Map.empty\<rparr>)
        ''about.page.tmpl''
       = (Return (Ptr (example_set ''about.page.tmpl''), None),
          example_ren\<lparr>UseCache := True,
            TemplateMap := GoMap [''about.page.tmpl'' \<mapsto> Ptr (example_set ''about.page.tmpl'')]\<rparr>,
          [MapRead ''about.page.tmpl'',
           ParseFilesCall ''about.page.tmpl'' Map.empty
             [''templates/b.layout.tmpl'', ''templates/about.page.tmpl''],
           Lock, MapWrite ''about.page.tmpl'', Unlock, MapRead ''about.page.tmpl''])"
proof -
  let ?old = "[''about.page.tmpl'' \<mapsto> Ptr (example_set ''cached'')]"
  let ?hit = "example_ren\<lparr>UseCache := True, TemplateMap := GoMap ?old\<rparr>"
  let ?off = "example_ren\<lparr>UseCache := False, TemplateMap := GoMap ?old\<rparr>"
  let ?new = "example_ren\<lparr>UseCache := True, TemplateMap := GoMap Map.empty\<rparr>"
  have t: "''about.page.tmpl'' \<noteq> ''missing.page.tmpl''" by simp
  have h1: "UseCache ?hit" by simp
  have h2: "map_lookup (TemplateMap ?hit) ''about.page.tmpl'' = (Ptr (example_set ''cached''), True)"
    by simp
  have c1: "buildTemplate example_lib ?hit ''about.page.tmpl'' =
      (Return (Ptr (example_set ''cached''), None), ?hit, [MapRead ''about.page.tmpl''])"
    using resolution_cache_or_disk [of example_lib ?hit "''about.page.tmpl''" "example_set ''cached''"]
      h1 h2 by blast
  have h3: "\<not> UseCache ?off" by simp
  have "buildTemplate example_lib ?off ''about.page.tmpl'' =
      buildTemplateFromDisk example_lib ?off ''about.page.tmpl''"
    using resolution_cache_or_disk [of example_lib ?off "''about.page.tmpl''"] h3 by blast
  then have c2: "buildTemplate example_lib ?off ''about.page.tmpl'' =
       (Return (Ptr (example_set ''about.page.tmpl''), None),
          example_ren\<lparr>UseCache := False,
            TemplateMap := GoMap [''about.page.tmpl'' \<mapsto> Ptr (example_set ''about.page.tmpl'')]\<rparr>,
          [ParseFilesCall ''about.page.tmpl'' Map.empty
             [''templates/b.layout.tmpl'', ''templates/about.page.tmpl''],
           Lock, MapWrite ''about.page.tmpl'', Unlock, MapRead ''about.page.tmpl''])"
    unfolding example_fromDisk [OF t] by simp
  have h4: "UseCache ?new" by simp
  have h5: "\<not> (\<exists>x. map_lookup (TemplateMap ?new) ''about.page.tmpl'' = (Ptr x, True))" by simp
  have "buildTemplate example_lib ?new ''about.page.tmpl'' =
      (outcome_of (buildTemplateFromDisk example_lib ?new ''about.page.tmpl''),
       render_of (buildTemplateFromDisk example_lib ?new ''about.page.tmpl''),
       MapRead ''about.page.tmpl'' # events_of (buildTemplateFromDisk example_lib ?new ''about.page.tmpl''))"
    using resolution_cache_or_disk [of example_lib ?new "''about.page.tmpl''"] h4 h5 by blast
  then have c3: "buildTemplate example_lib ?new ''about.page.tmpl'' =
       (Return (Ptr (example_set ''about.page.tmpl''), None),
          example_ren\<lparr>UseCache := True,
            TemplateMap := GoMap [''about.page.tmpl'' \<mapsto> Ptr (example_set ''about.page.tmpl'')]\<rparr>,
          [MapRead ''about.page.tmpl'',
           ParseFilesCall ''about.page.tmpl'' Map.empty
             [''templates/b.layout.tmpl'', ''templates/about.page.tmpl''],
           Lock, MapWrite ''about.page.tmpl'', Unlock, MapRead ''about.page.tmpl''])"
    unfolding example_fromDisk [OF t] by (simp add: proj_defs)
  show ?thesis using h1 h2 c1 h3 c2 h5 c3 by blast
qed

text \<open>
  C3 as stated lets any entry for \<open>t\<close> count. The source tests \<^verbatim>\<open>tmpl == nil\<close> after
  the lookup, so an entry that is present with a nil pointer is not returned: with
  \<open>UseCache\<close> true the template is built from disk and the entry replaced.
\<close>

theorem nil_entry_rebuilt_counterexample:
  "UseCache (example_ren\<lparr>UseCache := True, TemplateMap := GoMap [''about.page.tmpl'' \<mapsto> nil]\<rparr>)
   \<and> map_lookup (TemplateMap (example_ren\<lparr>UseCache := True,
         TemplateMap := GoMap [''about.page.tmpl'' \<mapsto> nil]\<rparr>)) ''about.page.tmpl'' = (nil, True)
   \<and> buildTemplate example_lib
        (example_ren\<lparr>UseCache := True, TemplateMap := GoMap [''about.page.tmpl'' \<mapsto> nil]\<rparr>)
        ''about.page.tmpl''
       = (Return (Ptr (example_set ''about.page.tmpl''), None),
          example_ren\<lparr>UseCache := True,
            TemplateMap := GoMap [''about.page.tmpl'' \<mapsto> Ptr (example_set ''about.page.tmpl'')]\<rparr>,
          [MapRead ''about.page.tmpl'',
           ParseFilesCall ''about.page.tmpl'' Map.empty
             [''templates/b.layout.tmpl'', ''templates/about.page.tmpl''],
           Lock, MapWrite ''about.page.tmpl'', Unlock, MapRead ''about.page.tmpl''])"
proof -
  let ?ren = "example_ren\<lparr>UseCache := True, TemplateMap := GoMap [''about.page.tmpl'' \<mapsto> nil]\<rparr>"
  have t: "''about.page.tmpl'' \<noteq> ''missing.page.tmpl''" by simp
  have h1: "UseCache ?ren" by simp
  have h2: "map_lookup (TemplateMap ?ren) ''about.page.tmpl'' = (nil, True)" by simp
  then have h3: "\<not> (\<exists>x. map_lookup (TemplateMap ?ren) ''about.page.tmpl'' = (Ptr x, True))" by simp
  have "buildTemplate example_lib ?ren ''about.page.tmpl'' =
       (Return (Ptr (example_set ''about.page.tmpl''), None),
          example_ren\<lparr>UseCache := True,
            TemplateMap := GoMap [''about.page.tmpl'' \<mapsto> Ptr (example_set ''about.page.tmpl'')]\<rparr>,
          [MapRead ''about.page.tmpl'',
           ParseFilesCall ''about.page.tmpl'' Map.empty
             [''templates/b.layout.tmpl'', ''templates/about.page.tmpl''],
           Lock, MapWrite ''about.page.tmpl'', Unlock, MapRead ''about.page.tmpl''])"
    unfolding buildTemplate_miss [OF h1 h3] example_fromDisk [OF t] by (simp add: proj_defs)
  then show ?thesis using h1 h2 by blast
qed

section \<open>Show and String\<close>

lemma cached_ren_alt:
  "cached_ren = example_ren\<lparr>UseCache := True,
      TemplateMap := GoMap [''about.page.tmpl'' \<mapsto> Ptr (example_set ''about.page.tmpl'')]\<rparr>"
  by (simp add: cached_ren_def example_ren_def New_def)

lemma example_hit:
  "buildTemplate example_lib cached_ren ''about.page.tmpl'' =
     (Return (Ptr (example_set ''about.page.tmpl''), None), cached_ren, [MapRead ''about.page.tmpl''])"
  by (rule buildTemplate_hit) (simp_all add: cached_ren_def example_ren_def New_def)

lemma example_broken:
  "buildTemplate example_lib cached_ren ''broken.page.tmpl'' =
     (Return (Ptr (example_set ''broken.page.tmpl''), None),
      cached_ren\<lparr>TemplateMap := GoMap [''about.page.tmpl'' \<mapsto> Ptr (example_set ''about.page.tmpl''),
                                        ''broken.page.tmpl'' \<mapsto> Ptr (example_set ''broken.page.tmpl'')]\<rparr>,
      [MapRead ''broken.page.tmpl'',
       ParseFilesCall ''broken.page.tmpl'' Map.empty
         [''templates/b.layout.tmpl'', ''templates/broken.page.tmpl''],
       Lock, MapWrite ''broken.page.tmpl'', Unlock, MapRead ''about.page.tmpl''])"
proof -
  have t: "''broken.page.tmpl'' \<noteq> ''missing.page.tmpl''" by simp
  have u: "UseCache cached_ren" by (simp add: cached_ren_alt)
  have m: "\<not> (\<exists>x. map_lookup (TemplateMap cached_ren) ''broken.page.tmpl'' = (Ptr x, True))"
    by (simp add: cached_ren_alt)
  show ?thesis
    unfolding buildTemplate_miss [OF u m]
    unfolding cached_ren_alt example_fromDisk [OF t]
    by (simp add: proj_defs)
qed

lemma example_missing:
  "buildTemplate example_lib cached_ren ''missing.page.tmpl'' =
     (Return (nil, Some (Error ''open templates/missing.page.tmpl: no such file or directory'')),
      cached_ren,
      [MapRead ''missing.page.tmpl'',
       ParseFilesCall ''missing.page.tmpl'' Map.empty
         [''templates/b.layout.tmpl'', ''templates/missing.page.tmpl'']])"
proof -
  have u: "UseCache cached_ren" by (simp add: cached_ren_alt)
  have m: "\<not> (\<exists>x. map_lookup (TemplateMap cached_ren) ''missing.page.tmpl'' = (Ptr x, True))"
    by (simp add: cached_ren_alt)
  have p: "ParseFiles example_lib ''missing.page.tmpl'' (Functions cached_ren)
       (Partials cached_ren @ [Join example_lib (TemplateDir cached_ren) ''missing.page.tmpl''])
     = Inl (Error ''open templates/missing.page.tmpl: no such file or directory'')"
    by (simp add: cached_ren_def example_lib_def example_ren_def New_def)
  show ?thesis
    unfolding buildTemplate_miss [OF u m] fromDisk_parse_error [OF p]
    by (simp add: proj_defs cached_ren_def example_lib_def example_ren_def New_def)
qed

lemma fromDisk_Execute_irrelevant:
  "buildTemplateFromDisk (lib\<lparr>Execute := ex\<rparr>) ren t = buildTemplateFromDisk lib ren t"
  by (simp add: buildTemplateFromDisk_def)

lemma fromDisk_ExecuteTemplate_irrelevant:
  "buildTemplateFromDisk (lib\<lparr>ExecuteTemplate := ex\<rparr>) ren t = buildTemplateFromDisk lib ren t"
  by (simp add: buildTemplateFromDisk_def)

lemma buildTemplate_Execute_irrelevant:
  "buildTemplate (lib\<lparr>Execute := ex\<rparr>) ren t = buildTemplate lib ren t"
  unfolding buildTemplate_def fromDisk_Execute_irrelevant by (rule refl)

lemma buildTemplate_ExecuteTemplate_irrelevant:
  "buildTemplate (lib\<lparr>ExecuteTemplate := ex\<rparr>) ren t = buildTemplate lib ren t"
  unfolding buildTemplate_def fromDisk_ExecuteTemplate_irrelevant by (rule refl)

text \<open>
  C6. For a call \<open>Show w t td\<close> whose resolution yields a template set, the set is
  executed into the sink \<open>w\<close> through \<^verbatim>\<open>ExecuteTemplate\<close> with \<open>t\<close> as the name of
  the definition to run. When the execution succeeds, \<open>Show\<close> returns \<^verbatim>\<open>nil\<close> and
  the sink holds the output. When it fails, \<^verbatim>\<open>http.Error\<close> is called on the sink with
  the error's text and status 500, after whatever the execution had written, and the
  same error is returned. The default-definition execution \<open>Execute\<close> plays no part.
\<close>

theorem Show_executes_named_definition:
  "buildTemplate lib ren t = (Return (Ptr tm, None), ren', es) \<Longrightarrow>
   (ExecuteTemplate lib tm t td = (out, None) \<longrightarrow>
      Show lib ren w t td = (Return None, ren', es, w @ [Write out]))
   \<and> (ExecuteTemplate lib tm t td = (out, Some err) \<longrightarrow>
        Show lib ren w t td =
          (Return (Some err), ren', es, w @ [Write out, http_Error (Error_text err) 500]))
   \<and> Show (lib\<lparr>Execute := ex\<rparr>) ren w t td = Show lib ren w t td"
proof -
  assume b: "buildTemplate lib ren t = (Return (Ptr tm, None), ren', es)"
  have ok: "Show lib ren w t td = (Return None, ren', es, w @ [Write out])"
    if "ExecuteTemplate lib tm t td = (out, None)"
    using b that by (simp add: Show_def)
  have bad: "Show lib ren w t td =
          (Return (Some err), ren', es, w @ [Write out, http_Error (Error_text err) 500])"
    if "ExecuteTemplate lib tm t td = (out, Some err)"
    using b that by (simp add: Show_def StatusInternalServerError_def)
  have "Show (lib\<lparr>Execute := ex\<rparr>) ren w t td = Show lib ren w t td"
    by (simp add: Show_def buildTemplate_Execute_irrelevant
          split: prod.splits outcome.splits option.splits ptr.splits)
  then show ?thesis using ok bad by blast
qed

theorem Show_executes_named_definition_witness:
  "buildTemplate example_lib cached_ren ''about.page.tmpl'' =
     (Return (Ptr (example_set ''about.page.tmpl''), None), cached_ren, [MapRead ''about.page.tmpl''])
   \<and> ExecuteTemplate example_lib (example_set ''about.page.tmpl'') ''about.page.tmpl'' ''X''
       = (''<html>X</html>'', None)
   \<and> Show example_lib cached_ren [] ''about.page.tmpl'' ''X'' =
       (Return None, cached_ren, [MapRead ''about.page.tmpl''], [Write ''<html>X</html>''])
   \<and> ExecuteTemplate example_lib (example_set ''broken.page.tmpl'') ''broken.page.tmpl'' ''X''
       = (''<html>'', Some (Error ''template: broken.page.tmpl: executing failed''))
   \<and> outcome_of (Show example_lib cached_ren [] ''broken.page.tmpl'' ''X'')
       = Return (Some (Error ''template: broken.page.tmpl: executing failed''))
   \<and> snd (snd (snd (Show example_lib cached_ren [] ''broken.page.tmpl'' ''X'')))
       = [Write ''<html>'', http_Error ''template: broken.page.tmpl: executing failed'' 500]"
proof -
  have e1: "ExecuteTemplate example_lib (example_set ''about.page.tmpl'') ''about.page.tmpl'' ''X''
       = (''<html>X</html>'', None)"
    by (simp add: example_lib_def)
  have e2: "ExecuteTemplate example_lib (example_set ''broken.page.tmpl'') ''broken.page.tmpl'' ''X''
       = (''<html>'', Some (Error ''template: broken.page.tmpl: executing failed''))"
    by (simp add: example_lib_def)
  have c1: "Show example_lib cached_ren [] ''about.page.tmpl'' ''X'' =
       (Return None, cached_ren, [MapRead ''about.page.tmpl''], [] @ [Write ''<html>X</html>''])"
    using Show_executes_named_definition [OF example_hit,
        of "''X''" "''<html>X</html>''" "[]" "Error []" "Execute example_lib"] e1
    by blast
  have c2: "Show example_lib cached_ren [] ''broken.page.tmpl'' ''X'' =
       (Return (Some (Error ''template: broken.page.tmpl: executing failed'')),
        cached_ren\<lparr>TemplateMap := GoMap [''about.page.tmpl'' \<mapsto> Ptr (example_set ''about.page.tmpl''),
                                        ''broken.page.tmpl'' \<mapsto> Ptr (example_set ''broken.page.tmpl'')]\<rparr>,
        [MapRead ''broken.page.tmpl'',
         ParseFilesCall ''broken.page.tmpl'' Map.empty
           [''templates/b.layout.tmpl'', ''templates/broken.page.tmpl''],
         Lock, MapWrite ''broken.page.tmpl'', Unlock, MapRead ''about.page.tmpl''],
        [] @ [Write ''<html>'',
              http_Error (Error_text (Error ''template: broken.page.tmpl: executing failed'')) 500])"
    using Show_executes_named_definition [OF example_broken,
        of "''X''" "''<html>''" "[]" "Error ''template: broken.page.tmpl: executing failed''"
           "Execute example_lib"] e2
    by blast
  show ?thesis
    using example_hit e1 e2 unfolding c1 c2 by (simp add: outcome_of_def)
qed

text \<open>
  C7. For a call \<open>String t td\<close>: when the resolution returns an error, the result is
  the empty string and that error; otherwise the set is executed through \<^verbatim>\<open>Execute\<close>
  (the set's default definition, with no definition name passed) into a fresh buffer,
  and the result is the buffer's text on success, the empty string and the error on an
  execution error. The named execution \<open>ExecuteTemplate\<close> plays no part.
\<close>

theorem String_executes_default_definition:
  "(buildTemplate lib ren t = (Return (p, Some err), ren', es) \<longrightarrow>
      String lib ren t td = (Return ([], Some err), ren', es))
   \<and> (buildTemplate lib ren t = (Return (Ptr tm, None), ren', es) \<longrightarrow>
        Execute lib tm td = (out, None) \<longrightarrow>
        String lib ren t td = (Return (out, None), ren', es))
   \<and> (buildTemplate lib ren t = (Return (Ptr tm, None), ren', es) \<longrightarrow>
        Execute lib tm td = (out, Some err) \<longrightarrow>
        String lib ren t td = (Return ([], Some err), ren', es))
   \<and> String (lib\<lparr>ExecuteTemplate := ex\<rparr>) ren t td = String lib ren t td"
proof (intro conjI impI)
  assume "buildTemplate lib ren t = (Return (p, Some err), ren', es)"
  then show "String lib ren t td = (Return ([], Some err), ren', es)"
    by (simp add: String_def split: ptr.splits)
next
  assume "buildTemplate lib ren t = (Return (Ptr tm, None), ren', es)"
    and "Execute lib tm td = (out, None)"
  then show "String lib ren t td = (Return (out, None), ren', es)"
    by (simp add: String_def)
next
  assume "buildTemplate lib ren t = (Return (Ptr tm, None), ren', es)"
    and "Execute lib tm td = (out, Some err)"
  then show "String lib ren t td = (Return ([], Some err), ren', es)"
    by (simp add: String_def)
next
  show "String (lib\<lparr>ExecuteTemplate := ex\<rparr>) ren t td = String lib ren t td"
    by (simp add: String_def buildTemplate_ExecuteTemplate_irrelevant
          split: prod.splits outcome.splits option.splits ptr.splits)
qed

theorem String_executes_default_definition_witness:
  "buildTemplate example_lib cached_ren ''missing.page.tmpl'' =
     (Return (nil, Some (Error ''open templates/missing.page.tmpl: no such file or directory'')),
      cached_ren,
      [MapRead ''missing.page.tmpl'',
       ParseFilesCall ''missing.page.tmpl'' Map.empty
         [''templates/b.layout.tmpl'', ''templates/missing.page.tmpl'']])
   \<and> outcome_of (String example_lib cached_ren ''missing.page.tmpl'' ''X'')
       = Return ([], Some (Error ''open templates/missing.page.tmpl: no such file or directory''))
   \<and> Execute example_lib (example_set ''about.page.tmpl'') ''X'' = (''Hello X'', None)
   \<and> String example_lib cached_ren ''about.page.tmpl'' ''X''
       = (Return (''Hello X'', None), cached_ren, [MapRead ''about.page.tmpl''])
   \<and> Execute example_lib (example_set ''broken.page.tmpl'') ''X''
       = (''Hel'', Some (Error ''template: broken.page.tmpl: executing failed''))
   \<and> outcome_of (String example_lib cached_ren ''broken.page.tmpl'' ''X'')
       = Return ([], Some (Error ''template: broken.page.tmpl: executing failed''))"
proof -
  note main = String_executes_default_definition
  have e1: "Execute example_lib (example_set ''about.page.tmpl'') ''X'' = (''Hello X'', None)"
    by (simp add: example_lib_def example_set_def)
  have e2: "Execute example_lib (example_set ''broken.page.tmpl'') ''X''
       = (''Hel'', Some (Error ''template: broken.page.tmpl: executing failed''))"
    by (simp add: example_lib_def example_set_def)
  have c0: "String example_lib cached_ren ''missing.page.tmpl'' ''X'' =
      (Return ([], Some (Error ''open templates/missing.page.tmpl: no such file or directory'')),
       cached_ren,
       [MapRead ''missing.page.tmpl'',
        ParseFilesCall ''missing.page.tmpl'' Map.empty
          [''templates/b.layout.tmpl'', ''templates/missing.page.tmpl'']])"
    using main [of example_lib cached_ren "''missing.page.tmpl''" nil] example_missing by blast
  have c1: "String example_lib cached_ren ''about.page.tmpl'' ''X''
       = (Return (''Hello X'', None), cached_ren, [MapRead ''about.page.tmpl''])"
    using main [of example_lib cached_ren "''about.page.tmpl''" nil _ _ _ "''X''"
        "example_set ''about.page.tmpl''" "''Hello X''"] example_hit e1
    by blast
  have c2: "String example_lib cached_ren ''broken.page.tmpl'' ''X'' =
      (Return ([], Some (Error ''template: broken.page.tmpl: executing failed'')),
       cached_ren\<lparr>TemplateMap := GoMap [''about.page.tmpl'' \<mapsto> Ptr (example_set ''about.page.tmpl''),
                                        ''broken.page.tmpl'' \<mapsto> Ptr (example_set ''broken.page.tmpl'')]\<rparr>,
       [MapRead ''broken.page.tmpl'',
        ParseFilesCall ''broken.page.tmpl'' Map.empty
          [''templates/b.layout.tmpl'', ''templates/broken.page.tmpl''],
        Lock, MapWrite ''broken.page.tmpl'', Unlock, MapRead ''about.page.tmpl''])"
    using main [of example_lib cached_ren "''broken.page.tmpl''" nil
        "Error ''template: broken.page.tmpl: executing failed''" _ _ "''X''"
        "example_set ''broken.page.tmpl''" "''Hel''"] example_broken e2
    by blast
  show ?thesis
    using example_missing e1 e2 c1 unfolding c0 c2 by (simp add: outcome_of_def)
qed

section \<open>Reads and writes of the cache map\<close>

text \<open>
  A successful disk build has inserted the returned set under the key \<open>t\<close>, replacing
  what the key held, and \<open>buildTemplateFromDisk\<close> never looks at \<open>UseCache\<close>. All map
  writes of a resolution happen between \<^verbatim>\<open>mapLock.Lock()\<close> and \<^verbatim>\<open>mapLock.Unlock()\<close>.
\<close>

lemma fromDisk_ignores_UseCache:
  "buildTemplateFromDisk lib (ren\<lparr>UseCache := u\<rparr>) t =
     (outcome_of (buildTemplateFromDisk lib ren t),
      (render_of (buildTemplateFromDisk lib ren t))\<lparr>UseCache := u\<rparr>,
      events_of (buildTemplateFromDisk lib ren t))"
  by (cases "TemplateMap ren")
     (simp_all add: buildTemplateFromDisk_def proj_defs map_index_def Let_def
        split: sum.splits option.splits ptr.splits)

lemma successful_build_inserts:
  "buildTemplateFromDisk lib ren t = (Return (p, None), ren', es) \<Longrightarrow>
   map_lookup (TemplateMap ren') t = (p, True) \<and> p \<noteq> nil
   \<and> (\<exists>f. TemplateMap ren = GoMap f \<and> ren' = ren\<lparr>TemplateMap := GoMap (f(t \<mapsto> p))\<rparr>)"
proof -
  assume "buildTemplateFromDisk lib ren t = (Return (p, None), ren', es)"
  from fromDisk_success [OF this] show ?thesis by auto
qed

lemma fromDisk_events_shape:
  "events_of (buildTemplateFromDisk lib ren t) \<in>
     {[ParseFilesCall t (Functions ren) (Partials ren @ [Join lib (TemplateDir ren) t])],
      [ParseFilesCall t (Functions ren) (Partials ren @ [Join lib (TemplateDir ren) t]), Lock],
      [ParseFilesCall t (Functions ren) (Partials ren @ [Join lib (TemplateDir ren) t]),
       Lock, MapWrite t, Unlock, MapRead ''about.page.tmpl'']}"
  by (cases "TemplateMap ren")
     (simp_all add: buildTemplateFromDisk_def events_of_def map_index_def Let_def
        split: sum.splits option.splits ptr.splits)

lemma buildTemplate_events:
  "events_of (buildTemplate lib ren t) = [MapRead t]
   \<or> events_of (buildTemplate lib ren t) = events_of (buildTemplateFromDisk lib ren t)
   \<or> events_of (buildTemplate lib ren t) = MapRead t # events_of (buildTemplateFromDisk lib ren t)"
proof (cases "UseCache ren")
  case False
  then show ?thesis using buildTemplate_nocache [OF False, of lib t] by simp
next
  case True
  show ?thesis
  proof (cases "\<exists>tm. map_lookup (TemplateMap ren) t = (Ptr tm, True)")
    case hit: True
    then obtain tm where "map_lookup (TemplateMap ren) t = (Ptr tm, True)" by blast
    from buildTemplate_hit [OF True this, of lib] show ?thesis by (simp add: events_of_def)
  next
    case miss: False
    show ?thesis unfolding buildTemplate_miss [OF True miss] by (simp add: events_of_def)
  qed
qed

lemma writes_under_lock:
  "under_lock held (filter (\<lambda>e. \<not> is_read e) (events_of (buildTemplate lib ren t)))"
  using fromDisk_events_shape [of lib ren t] buildTemplate_events [of lib ren t]
  by auto

text \<open>
  C1 says that a successful disk build inserts the set under the key \<open>t\<close> whatever
  \<open>UseCache\<close> is (which \<open>successful_build_inserts\<close> and \<open>fromDisk_ignores_UseCache\<close>
  establish), and that the cache map is consulted for reads only when \<open>UseCache\<close> is
  true. The second part fails on the source: with \<open>UseCache\<close> false, a resolution whose
  parse succeeds still reads \<^verbatim>\<open>TemplateMap["about.page.tmpl"]\<close>, and what it finds
  decides the outcome. On two configurations that differ only in the map, the build of
  \<^verbatim>\<open>home.page.tmpl\<close> panics on the empty map and returns the set when the map holds
  \<^verbatim>\<open>about.page.tmpl\<close>.
\<close>

theorem uncached_build_reads_cache_map:
  "\<not> UseCache (example_ren\<lparr>UseCache := False, TemplateMap := GoMap Map.empty\<rparr>)
   \<and> buildTemplate example_lib (example_ren\<lparr>UseCache := False, TemplateMap := GoMap Map.empty\<rparr>)
        ''home.page.tmpl''
       = (Panic nil_deref_panic,
          example_ren\<lparr>UseCache := False,
            TemplateMap := GoMap [''home.page.tmpl'' \<mapsto> Ptr (example_set ''home.page.tmpl'')]\<rparr>,
          [ParseFilesCall ''home.page.tmpl'' Map.empty
             [''templates/b.layout.tmpl'', ''templates/home.page.tmpl''],
           Lock, MapWrite ''home.page.tmpl'', Unlock, MapRead ''about.page.tmpl''])
   \<and> buildTemplate example_lib
        (example_ren\<lparr>UseCache := False,
           TemplateMap := GoMap [''about.page.tmpl'' \<mapsto> Ptr (example_set ''about.page.tmpl'')]\<rparr>)
        ''home.page.tmpl''
       = (Return (Ptr (example_set ''home.page.tmpl''), None),
          example_ren\<lparr>UseCache := False,
            TemplateMap := GoMap [''about.page.tmpl'' \<mapsto> Ptr (example_set ''about.page.tmpl''),
                                  ''home.page.tmpl'' \<mapsto> Ptr (example_set ''home.page.tmpl'')]\<rparr>,
          [ParseFilesCall ''home.page.tmpl'' Map.empty
             [''templates/b.layout.tmpl'', ''templates/home.page.tmpl''],
           Lock, MapWrite ''home.page.tmpl'', Unlock, MapRead ''about.page.tmpl''])"
proof -
  have t: "''home.page.tmpl'' \<noteq> ''missing.page.tmpl''" by simp
  have off: "\<not> UseCache (example_ren\<lparr>UseCache := False, TemplateMap := GoMap f\<rparr>)" for f
    by simp
  show ?thesis
    unfolding buildTemplate_nocache [OF off] example_fromDisk [OF t] by simp
qed

text \<open>
  C10 says that every read and every write of the cache map executes under the one
  package-level mutex. The writes do (\<open>writes_under_lock\<close>); the reads do not: a cache
  hit reads \<^verbatim>\<open>TemplateMap[t]\<close> with no \<^verbatim>\<open>Lock\<close> before it, and after a build the
  read of \<^verbatim>\<open>about.page.tmpl\<close> comes after \<^verbatim>\<open>Unlock\<close>.
\<close>

theorem cache_hit_reads_without_lock:
  "UseCache cached_ren
   \<and> map_lookup (TemplateMap cached_ren) ''about.page.tmpl'' = (Ptr (example_set ''about.page.tmpl''), True)
   \<and> buildTemplate example_lib cached_ren ''about.page.tmpl'' =
       (Return (Ptr (example_set ''about.page.tmpl''), None), cached_ren, [MapRead ''about.page.tmpl''])
   \<and> \<not> under_lock False (events_of (buildTemplate example_lib cached_ren ''about.page.tmpl''))
   \<and> events_of (buildTemplate example_lib cached_ren ''broken.page.tmpl'') =
       [MapRead ''broken.page.tmpl'',
        ParseFilesCall ''broken.page.tmpl'' Map.empty
          [''templates/b.layout.tmpl'', ''templates/broken.page.tmpl''],
        Lock, MapWrite ''broken.page.tmpl'', Unlock, MapRead ''about.page.tmpl'']
   \<and> \<not> under_lock False (events_of (buildTemplate example_lib cached_ren ''broken.page.tmpl''))"
  unfolding example_hit example_broken
  by (simp add: events_of_def cached_ren_def example_ren_def New_def)

section \<open>Claims about discovery\<close>

lemma find_files_ok:
  "find_files lib n root ext = (files, None) \<Longrightarrow>
   (\<forall>v\<in>set (Walk lib n root). verr v = None)
   \<and> files = map vpath (filter (\<lambda>v. Ext (vname v) = ext) (Walk lib n root))"
proof -
  assume a: "find_files lib n root ext = (files, None)"
  obtain e fs where w: "WalkDir (Walk lib n root) (find_fn ext) [] = (e, fs)"
    by (cases "WalkDir (Walk lib n root) (find_fn ext) []") auto
  from a w have e: "e = None" and fs: "fs = files"
    by (auto simp add: find_files_def split: option.splits)
  from w e have all: "\<forall>v\<in>set (Walk lib n root). verr v = None"
    using WalkDir_find_fn_None by blast
  from WalkDir_find_fn_ok [OF all, of ext "[]"] w fs
  have "files = map vpath (filter (\<lambda>v. Ext (vname v) = ext) (Walk lib n root))" by simp
  with all show ?thesis by blast
qed

lemma find_files_error:
  "find_files lib n root ext = (files, Some e) \<Longrightarrow>
   files = [] \<and> (\<exists>v\<in>set (Walk lib n root). verr v = Some e)"
proof -
  assume a: "find_files lib n root ext = (files, Some e)"
  obtain e' fs where w: "WalkDir (Walk lib n root) (find_fn ext) [] = (e', fs)"
    by (cases "WalkDir (Walk lib n root) (find_fn ext) []") auto
  from a w have "e' = Some e" and "files = []"
    by (auto simp add: find_files_def split: option.splits)
  then show ?thesis using w WalkDir_find_fn_Some by blast
qed

lemma addTemplate_ok:
  "addTemplate lib n root marker = (files, None) \<Longrightarrow>
   files = map vpath (filter (\<lambda>v. Ext (vname v) = ''.tmpl'' \<and> Contains (vpath v) marker)
                        (Walk lib n root))"
proof -
  assume a: "addTemplate lib n root marker = (files, None)"
  obtain fs e where f: "find_files lib n root ''.tmpl'' = (fs, e)"
    by (cases "find_files lib n root ''.tmpl''") auto
  from a f have e: "e = None" and files: "files = addTemplate_loop fs marker []"
    by (auto simp add: addTemplate_def split: option.splits)
  from find_files_ok f e
  have "fs = map vpath (filter (\<lambda>v. Ext (vname v) = ''.tmpl'') (Walk lib n root))" by blast
  then show ?thesis
    using files by (simp add: addTemplate_loop_filter filter_map comp_def conj_commute)
qed

lemma addTemplate_error:
  "addTemplate lib n root marker = (files, Some e) \<Longrightarrow>
   files = [] \<and> (\<exists>v\<in>set (Walk lib n root). verr v = Some e)"
proof -
  assume a: "addTemplate lib n root marker = (files, Some e)"
  obtain fs e' where f: "find_files lib n root ''.tmpl'' = (fs, e')"
    by (cases "find_files lib n root ''.tmpl''") auto
  from a f have "e' = Some e" and "files = []"
    by (auto simp add: addTemplate_def split: option.splits)
  then show ?thesis using f find_files_error by blast
qed

text \<open>
  C9. \<open>addTemplate\<close> passes the fixed extension \<^verbatim>\<open>.tmpl\<close> to \<open>find_files\<close>. When it
  succeeds for a root directory and a marker, the returned list is, in the order of the
  walk, the paths of the visited entries whose name has the final extension \<^verbatim>\<open>.tmpl\<close>
  (\<open>Ext\<close> of the name, see \<open>Ext_tmpl_iff\<close>) and whose path contains the marker as a
  substring. So a path is in the list if and only if it is the path of such an entry;
  an entry with any other extension is never in it, whatever the marker.
\<close>

theorem discovery_only_tmpl:
  "addTemplate lib n root marker = (files, None) \<Longrightarrow>
   files = map vpath (filter (\<lambda>v. Ext (vname v) = ''.tmpl'' \<and> Contains (vpath v) marker)
                        (Walk lib n root))
   \<and> (p \<in> set files) =
       (\<exists>v\<in>set (Walk lib n root). vpath v = p \<and> Ext (vname v) = ''.tmpl''
           \<and> (\<exists>u w. p = u @ marker @ w))"
proof -
  assume a: "addTemplate lib n root marker = (files, None)"
  note l = addTemplate_ok [OF a]
  have "(p \<in> set files) =
       (\<exists>v\<in>set (Walk lib n root). vpath v = p \<and> Ext (vname v) = ''.tmpl'' \<and> Contains (vpath v) marker)"
    unfolding l by auto
  also have "\<dots> = (\<exists>v\<in>set (Walk lib n root). vpath v = p \<and> Ext (vname v) = ''.tmpl''
           \<and> (\<exists>u w. p = u @ marker @ w))"
    using Contains_iff by blast
  finally show ?thesis using l by blast
qed

lemma example_addTemplate_layout:
  "addTemplate example_lib n ''templates'' ''layout'' = ([''templates/b.layout.tmpl''], None)"
  by (simp add: addTemplate_def find_files_def example_lib_def example_walk_def find_fn_def Ext_def)

lemma example_addTemplate_partial:
  "addTemplate example_lib n ''templates'' ''partial'' = ([''templates/a.partial.tmpl''], None)"
  by (simp add: addTemplate_def find_files_def example_lib_def example_walk_def find_fn_def Ext_def)

lemma flaky_addTemplate_first:
  "addTemplate flaky_lib 0 ''templates'' ''layout'' = ([''templates/b.layout.tmpl''], None)"
  by (simp add: addTemplate_def find_files_def flaky_lib_def example_walk_def find_fn_def Ext_def)

lemma flaky_addTemplate_later:
  "addTemplate flaky_lib (Suc n) root marker = ([], Some (Error ''lstat: permission denied''))"
  by (simp add: addTemplate_def find_files_def flaky_lib_def find_fn_def)

theorem discovery_only_tmpl_witness:
  "addTemplate example_lib 0 ''templates'' ''layout'' = ([''templates/b.layout.tmpl''], None)
   \<and> [''templates/b.layout.tmpl''] =
       map vpath (filter (\<lambda>v. Ext (vname v) = ''.tmpl'' \<and> Contains (vpath v) ''layout'')
                    (Walk example_lib 0 ''templates''))
   \<and> (''templates/notes.layout.txt'' \<in> set [''templates/b.layout.tmpl'']) =
       (\<exists>v\<in>set (Walk example_lib 0 ''templates''). vpath v = ''templates/notes.layout.txt''
           \<and> Ext (vname v) = ''.tmpl'' \<and> (\<exists>u w. ''templates/notes.layout.txt'' = u @ ''layout'' @ w))
   \<and> ''templates/notes.layout.txt'' \<notin> set [''templates/b.layout.tmpl'']
   \<and> Contains ''templates/notes.layout.txt'' ''layout''"
proof -
  note h = example_addTemplate_layout [of 0]
  have c: "[''templates/b.layout.tmpl''] =
       map vpath (filter (\<lambda>v. Ext (vname v) = ''.tmpl'' \<and> Contains (vpath v) ''layout'')
                    (Walk example_lib 0 ''templates''))
   \<and> (''templates/notes.layout.txt'' \<in> set [''templates/b.layout.tmpl'']) =
       (\<exists>v\<in>set (Walk example_lib 0 ''templates''). vpath v = ''templates/notes.layout.txt''
           \<and> Ext (vname v) = ''.tmpl'' \<and> (\<exists>u w. ''templates/notes.layout.txt'' = u @ ''layout'' @ w))"
    using discovery_only_tmpl [OF h, of "''templates/notes.layout.txt''"] .
  have n: "''templates/notes.layout.txt'' \<notin> set [''templates/b.layout.tmpl'']" by simp
  have k: "Contains ''templates/notes.layout.txt'' ''layout''" by simp
  show ?thesis using h c n k by blast
qed

lemma loop_all_found:
  "\<forall>(i, m)\<in>set (List.enumerate n fts). snd (addTemplate lib i (TemplateDir ren) m) = None \<Longrightarrow>
   LoadLayoutsAndPartials_loop lib ren n fts acc =
     (None, ren\<lparr>Partials := acc @ concat (map (\<lambda>(i, m). fst (addTemplate lib i (TemplateDir ren) m))
                                            (List.enumerate n fts))\<rparr>)"
proof (induction fts arbitrary: n acc)
  case Nil
  then show ?case by simp
next
  case (Cons m fts)
  obtain files e where a: "addTemplate lib n (TemplateDir ren) m = (files, e)"
    by (cases "addTemplate lib n (TemplateDir ren) m") auto
  with Cons.prems have e: "e = None" by simp
  from Cons.prems
  have "\<forall>(i, m)\<in>set (List.enumerate (Suc n) fts). snd (addTemplate lib i (TemplateDir ren) m) = None"
    by simp
  from Cons.IH [OF this, of "acc @ files"] a e show ?case by simp
qed

lemma loop_some_failed:
  "\<exists>(i, m)\<in>set (List.enumerate n fts). snd (addTemplate lib i (TemplateDir ren) m) \<noteq> None \<Longrightarrow>
   \<exists>e. LoadLayoutsAndPartials_loop lib ren n fts acc = (Some e, ren)
        \<and> (\<exists>(i, m)\<in>set (List.enumerate n fts). snd (addTemplate lib i (TemplateDir ren) m) = Some e)"
proof (induction fts arbitrary: n acc)
  case Nil
  then show ?case by simp
next
  case (Cons m fts)
  obtain files e where a: "addTemplate lib n (TemplateDir ren) m = (files, e)"
    by (cases "addTemplate lib n (TemplateDir ren) m") auto
  show ?case
  proof (cases e)
    case (Some err)
    then show ?thesis using a by auto
  next
    case None
    with Cons.prems a
    have "\<exists>(i, m)\<in>set (List.enumerate (Suc n) fts). snd (addTemplate lib i (TemplateDir ren) m) \<noteq> None"
      by auto
    from Cons.IH [OF this, of "acc @ files"] None a show ?thesis by auto
  qed
qed

text \<open>
  C8. For a call \<open>LoadLayoutsAndPartials markers\<close>, where the \<open>i\<close>-th marker is searched
  by the \<open>i\<close>-th walk: when the file search of some marker fails, the call returns an
  error (that of a failing search) and the \<open>Render\<close> value, \<open>Partials\<close> included, is
  unchanged, also when earlier searches had found files; when every search succeeds,
  the call returns \<^verbatim>\<open>nil\<close> and replaces \<open>Partials\<close> by the concatenation, in marker
  order, of the lists found, changing no other field.
\<close>

theorem discovery_pass_all_or_nothing:
  "((\<exists>(i, m)\<in>set (List.enumerate 0 fileTypes). snd (addTemplate lib i (TemplateDir ren) m) \<noteq> None) \<longrightarrow>
      (\<exists>e. LoadLayoutsAndPartials lib ren fileTypes = (Some e, ren)
           \<and> (\<exists>(i, m)\<in>set (List.enumerate 0 fileTypes).
                 snd (addTemplate lib i (TemplateDir ren) m) = Some e)))
   \<and> ((\<forall>(i, m)\<in>set (List.enumerate 0 fileTypes). snd (addTemplate lib i (TemplateDir ren) m) = None) \<longrightarrow>
        LoadLayoutsAndPartials lib ren fileTypes =
          (None, ren\<lparr>Partials :=
                       concat (map (\<lambda>(i, m). fst (addTemplate lib i (TemplateDir ren) m))
                                 (List.enumerate 0 fileTypes))\<rparr>))
   \<and> (LoadLayoutsAndPartials lib ren fileTypes = (Some err, ren') \<longrightarrow>
        ren' = ren \<and> Partials ren' = Partials ren)"
proof (intro conjI impI)
  assume "\<exists>(i, m)\<in>set (List.enumerate 0 fileTypes). snd (addTemplate lib i (TemplateDir ren) m) \<noteq> None"
  from loop_some_failed [OF this, of "[]"]
  show "\<exists>e. LoadLayoutsAndPartials lib ren fileTypes = (Some e, ren)
           \<and> (\<exists>(i, m)\<in>set (List.enumerate 0 fileTypes).
                 snd (addTemplate lib i (TemplateDir ren) m) = Some e)"
    by (simp add: LoadLayoutsAndPartials_def)
next
  assume "\<forall>(i, m)\<in>set (List.enumerate 0 fileTypes). snd (addTemplate lib i (TemplateDir ren) m) = None"
  from loop_all_found [OF this, of "[]"]
  show "LoadLayoutsAndPartials lib ren fileTypes =
          (None, ren\<lparr>Partials :=
                       concat (map (\<lambda>(i, m). fst (addTemplate lib i (TemplateDir ren) m))
                                 (List.enumerate 0 fileTypes))\<rparr>)"
    by (simp add: LoadLayoutsAndPartials_def)
next
  assume a: "LoadLayoutsAndPartials lib ren fileTypes = (Some err, ren')"
  have "\<exists>(i, m)\<in>set (List.enumerate 0 fileTypes). snd (addTemplate lib i (TemplateDir ren) m) \<noteq> None"
  proof (rule ccontr)
    assume "\<not> (\<exists>(i, m)\<in>set (List.enumerate 0 fileTypes).
                 snd (addTemplate lib i (TemplateDir ren) m) \<noteq> None)"
    then have "\<forall>(i, m)\<in>set (List.enumerate 0 fileTypes).
                 snd (addTemplate lib i (TemplateDir ren) m) = None" by auto
    from loop_all_found [OF this, of "[]"] a show False
      by (simp add: LoadLayoutsAndPartials_def)
  qed
  from loop_some_failed [OF this, of "[]"] a
  show "ren' = ren" "Partials ren' = Partials ren"
    by (auto simp add: LoadLayoutsAndPartials_def)
qed

theorem discovery_pass_all_or_nothing_witness:
  "snd (addTemplate flaky_lib 0 (TemplateDir (cached_ren\<lparr>Partials := [''old.partial.tmpl'']\<rparr>)) ''layout'')
     = None
   \<and> snd (addTemplate flaky_lib 1 (TemplateDir (cached_ren\<lparr>Partials := [''old.partial.tmpl'']\<rparr>)) ''partial'')
       \<noteq> None
   \<and> LoadLayoutsAndPartials flaky_lib (cached_ren\<lparr>Partials := [''old.partial.tmpl'']\<rparr>)
        [''layout'', ''partial'']
       = (Some (Error ''lstat: permission denied''), cached_ren\<lparr>Partials := [''old.partial.tmpl'']\<rparr>)
   \<and> snd (addTemplate example_lib 0 (TemplateDir (cached_ren\<lparr>Partials := [''old.partial.tmpl'']\<rparr>)) ''layout'')
       = None
   \<and> snd (addTemplate example_lib 1 (TemplateDir (cached_ren\<lparr>Partials := [''old.partial.tmpl'']\<rparr>)) ''partial'')
       = None
   \<and> LoadLayoutsAndPartials example_lib (cached_ren\<lparr>Partials := [''old.partial.tmpl'']\<rparr>)
        [''layout'', ''partial'']
       = (None, cached_ren\<lparr>Partials := [''templates/b.layout.tmpl'', ''templates/a.partial.tmpl'']\<rparr>)"
proof -
  let ?ren = "cached_ren\<lparr>Partials := [''old.partial.tmpl'']\<rparr>"
  have d: "TemplateDir ?ren = ''templates''"
    by (simp add: cached_ren_def example_ren_def)
  have en: "List.enumerate 0 [''layout'', ''partial''] = [(0, ''layout''), (Suc 0, ''partial'')]"
    by simp
  have f0: "snd (addTemplate flaky_lib 0 (TemplateDir ?ren) ''layout'') = None"
    unfolding d by (simp add: flaky_addTemplate_first)
  have f1: "snd (addTemplate flaky_lib (Suc 0) (TemplateDir ?ren) ''partial'')
      = Some (Error ''lstat: permission denied'')"
    unfolding d by (simp add: flaky_addTemplate_later)
  then have h1: "\<exists>(i, m)\<in>set (List.enumerate 0 [''layout'', ''partial'']).
      snd (addTemplate flaky_lib i (TemplateDir ?ren) m) \<noteq> None"
    unfolding en by simp
  from discovery_pass_all_or_nothing [of "[''layout'', ''partial'']" flaky_lib ?ren] h1
  obtain e where r: "LoadLayoutsAndPartials flaky_lib ?ren [''layout'', ''partial''] = (Some e, ?ren)"
    and "\<exists>(i, m)\<in>set (List.enumerate 0 [''layout'', ''partial'']).
      snd (addTemplate flaky_lib i (TemplateDir ?ren) m) = Some e"
    by blast
  then have "e = Error ''lstat: permission denied''"
    unfolding en using f0 f1 by auto
  with r have c1: "LoadLayoutsAndPartials flaky_lib ?ren [''layout'', ''partial'']
       = (Some (Error ''lstat: permission denied''), ?ren)" by simp
  have h2: "snd (addTemplate example_lib 0 (TemplateDir ?ren) ''layout'') = None"
    and h3: "snd (addTemplate example_lib (Suc 0) (TemplateDir ?ren) ''partial'') = None"
    unfolding d by (simp_all add: example_addTemplate_layout example_addTemplate_partial)
  then have "\<forall>(i, m)\<in>set (List.enumerate 0 [''layout'', ''partial'']).
      snd (addTemplate example_lib i (TemplateDir ?ren) m) = None"
    unfolding en by simp
  with discovery_pass_all_or_nothing [of "[''layout'', ''partial'']" example_lib ?ren]
  have "LoadLayoutsAndPartials example_lib ?ren [''layout'', ''partial''] =
          (None, ?ren\<lparr>Partials :=
             concat (map (\<lambda>(i, m). fst (addTemplate example_lib i (TemplateDir ?ren) m))
                       (List.enumerate 0 [''layout'', ''partial'']))\<rparr>)"
    by blast
  then have c2: "LoadLayoutsAndPartials example_lib ?ren [''layout'', ''partial'']
       = (None, cached_ren\<lparr>Partials := [''templates/b.layout.tmpl'', ''templates/a.partial.tmpl'']\<rparr>)"
    unfolding en d by (simp add: example_addTemplate_layout example_addTemplate_partial)
  show ?thesis using f0 f1 c1 h2 h3 c2 by simp
qed

end
